theory Spec2Isabelle
  imports Complex_Main
begin

section \<open>Instants, durations and the calendar\<close>

text \<open>
  The monitor works on naive local \<^verbatim>\<open>datetime\<close> values: the commit times come from
  \<^verbatim>\<open>datetime.fromtimestamp\<close>, the tick time from \<^verbatim>\<open>datetime.now()\<close>. A naive
  datetime is a count of microseconds on the proleptic Gregorian calendar, so an instant
  is modelled as the number of microseconds since 0001-01-01 00:00:00; the difference of
  two instants (a \<^verbatim>\<open>timedelta\<close>) is a number of microseconds. Comparing and sorting
  datetimes is comparing these counts.

  The floats that the code computes (\<^verbatim>\<open>total_seconds() / 60\<close>) are modelled by exact
  rationals. Every comparison of the code is against a whole number of minutes or hours,
  and every floor is taken of a difference of commit times, which are whole seconds, so
  rounding does not change any of the results.
\<close>

type_synonym instant = int
type_synonym timedelta = int

definition total_seconds :: "timedelta \<Rightarrow> rat" where
  "total_seconds td = of_int td / 1000000"

text \<open>Python's \<^verbatim>\<open>int(x)\<close> on a float truncates towards zero.\<close>

definition py_int :: "rat \<Rightarrow> int" where
  "py_int x = (if 0 \<le> x then \<lfloor>x\<rfloor> else \<lceil>x\<rceil>)"

text \<open>\<^verbatim>\<open>c.hour\<close>, and \<^verbatim>\<open>c.date()\<close> as the proleptic Gregorian ordinal of the day.\<close>

definition hour :: "instant \<Rightarrow> int" where
  "hour c = (c div 3600000000) mod 24"

definition date :: "instant \<Rightarrow> int" where
  "date c = c div 86400000000 + 1"

text \<open>
  \<^verbatim>\<open>c.isocalendar()[1]\<close>, the ISO week number (1 to 53, without the ISO year), computed
  from the ordinal as the datetime library does.
\<close>

definition days_before_year :: "int \<Rightarrow> int" where
  "days_before_year year = (let y = year - 1 in y * 365 + y div 4 - y div 100 + y div 400)"

definition isoweek1monday :: "int \<Rightarrow> int" where
  "isoweek1monday year =
     (let firstday = days_before_year year + 1;
          firstweekday = (firstday + 6) mod 7;
          week1monday = firstday - firstweekday
      in if firstweekday > 3 then week1monday + 7 else week1monday)"

definition ord2year :: "int \<Rightarrow> int" where
  "ord2year ordinal =
     (let n = ordinal - 1;
          n400 = n div 146097; n = n mod 146097;
          n100 = n div 36524; n = n mod 36524;
          n4 = n div 1461; n = n mod 1461;
          n1 = n div 365;
          year = n400 * 400 + 1 + n100 * 100 + n4 * 4 + n1
      in if n1 = 4 \<or> n100 = 4 then year - 1 else year)"

definition isoweek :: "instant \<Rightarrow> int" where
  "isoweek c =
     (let today = date c;
          year = ord2year today;
          week = (today - isoweek1monday year) div 7
      in if week < 0 then (today - isoweek1monday (year - 1)) div 7 + 1
         else if week \<ge> 52 \<and> today \<ge> isoweek1monday (year + 1) then 1
         else week + 1)"

section \<open>Configurable settings\<close>

definition LONG_SESSION_HOURS :: int where "LONG_SESSION_HOURS = 3"
definition LATE_NIGHT_START :: int where "LATE_NIGHT_START = 22"
definition LATE_NIGHT_END :: int where "LATE_NIGHT_END = 6"
definition MIN_BREAK_MINUTES :: int where "MIN_BREAK_MINUTES = 5"

section \<open>Session segmentation: \<^verbatim>\<open>analyze_sessions\<close>\<close>

type_synonym session = "instant list"

text \<open>\<^verbatim>\<open>(curr - prev).total_seconds() / 60\<close> and \<^verbatim>\<open>(b - a).total_seconds() / 3600\<close>.\<close>

definition minutes_between :: "instant \<Rightarrow> instant \<Rightarrow> rat" where
  "minutes_between prev cur = total_seconds (cur - prev) / 60"

definition hours_between :: "instant \<Rightarrow> instant \<Rightarrow> rat" where
  "hours_between a b = total_seconds (b - a) / 3600"

text \<open>
  The loop over \<^verbatim>\<open>zip(commit_times, commit_times[1:])\<close>, with the two variables it
  updates: the list of closed sessions and the session being built.
\<close>

fun segment_loop ::
  "session list \<Rightarrow> session \<Rightarrow> (instant \<times> instant) list \<Rightarrow> session list \<times> session" where
  "segment_loop sessions session [] = (sessions, session)"
| "segment_loop sessions session ((prev, cur) # pairs) =
     (if minutes_between prev cur > of_int MIN_BREAK_MINUTES
      then segment_loop (sessions @ [session]) [cur] pairs
      else segment_loop sessions (session @ [cur]) pairs)"

text \<open>
  On an empty input the function prints a line and returns nothing (\<^verbatim>\<open>None\<close>);
  otherwise it returns the list of sessions.
\<close>

definition analyze_sessions :: "instant list \<Rightarrow> session list option" where
  "analyze_sessions commit_times =
     (if commit_times = [] then None
      else
        let commit_times = sort commit_times;
            (sessions, session) =
               segment_loop [] [hd commit_times] (zip commit_times (tl commit_times))
        in Some (if session \<noteq> [] then sessions @ [session] else sessions))"

section \<open>Metrics recomputed on every tick\<close>

text \<open>
  The list comprehensions of \<^verbatim>\<open>health_check_loop\<close>. They read \<^verbatim>\<open>s[0]\<close> and
  \<^verbatim>\<open>s[-1]\<close>; every session that \<^verbatim>\<open>analyze_sessions\<close> returns holds at least one
  instant (lemma \<open>analyze_sessions_nonempty\<close> below), so neither read can fail.
\<close>

definition long_sessions :: "session list \<Rightarrow> session list" where
  "long_sessions sessions =
     filter (\<lambda>s. hours_between (hd s) (last s) > of_int LONG_SESSION_HOURS) sessions"

definition no_break_sessions :: "session list \<Rightarrow> session list" where
  "no_break_sessions sessions =
     filter (\<lambda>s. list_all (\<lambda>(prev, cur). minutes_between prev cur < 60) (zip s (tl s))
                 \<and> hours_between (hd s) (last s) > 2) sessions"

definition is_late_night :: "instant \<Rightarrow> bool" where
  "is_late_night c \<longleftrightarrow> LATE_NIGHT_START \<le> hour c \<or> hour c < LATE_NIGHT_END"

definition late_night_commits :: "session list \<Rightarrow> instant list" where
  "late_night_commits sessions = filter is_late_night (concat sessions)"

section \<open>The reminder scheduler: \<^verbatim>\<open>health_check_loop\<close>\<close>

text \<open>
  A notification is one call of \<^verbatim>\<open>show_popup_func(title, msg)\<close>. The messages are
  fixed texts, except that the long-session alert quotes the number of long sessions.
  The lines written through \<^verbatim>\<open>print_func\<close> are not notifications and are left out.
\<close>

datatype notification =
    MonitoringStarted
  | NoCommitData
  | LongSessionAlert nat
  | BreakReminder
  | NightOwlAlert
  | WorkLimitWarning
  | WeeklyLimitWarning
  | HydrationReminder
  | ActivityReminder
  | ErgonomicsTip
  | MoodCheckIn
  | GreatJob

fun title :: "notification \<Rightarrow> string" where
  "title MonitoringStarted = ''Developer Health Monitor''"
| "title NoCommitData = ''Developer Health Monitor''"
| "title (LongSessionAlert n) = ''Developer Health Alert''"
| "title BreakReminder = ''Break Reminder''"
| "title NightOwlAlert = ''Night Owl Alert''"
| "title WorkLimitWarning = ''Work Limit Warning''"
| "title WeeklyLimitWarning = ''Weekly Limit Warning''"
| "title HydrationReminder = ''Hydration Reminder''"
| "title ActivityReminder = ''Activity Reminder''"
| "title ErgonomicsTip = ''Ergonomics Tip''"
| "title MoodCheckIn = ''Mood Check-In''"
| "title GreatJob = ''Great Job!''"

text \<open>The local variables of \<^verbatim>\<open>health_check_loop\<close> that live across iterations.\<close>

record rolling_state =
  last_break_reminder :: "instant option"
  last_hydration_reminder :: "instant option"
  last_activity_reminder :: "instant option"
  last_ergonomics_tip :: "instant option"
  last_mood_check :: "instant option"
  daily_coding_minutes :: int
  weekly_coding_minutes :: int
  last_day :: "int option"
  last_week :: "int option"
  positive_reinforcement_given :: bool
  first_run :: bool

definition initial_state :: rolling_state where
  "initial_state =
     \<lparr> last_break_reminder = None, last_hydration_reminder = None,
       last_activity_reminder = None, last_ergonomics_tip = None, last_mood_check = None,
       daily_coding_minutes = 0, weekly_coding_minutes = 0,
       last_day = None, last_week = None,
       positive_reinforcement_given = False, first_run = True \<rparr>"

definition hydration_interval :: int where "hydration_interval = 60"
definition activity_interval :: int where "activity_interval = 90"
definition mood_check_interval :: int where "mood_check_interval = 180"
definition ergonomics_interval :: int where "ergonomics_interval = 120"

text \<open>Lines 133 to 139: the day and the week roll over.\<close>

definition roll_periods :: "int \<Rightarrow> int \<Rightarrow> rolling_state \<Rightarrow> rolling_state" where
  "roll_periods today week st =
     (let st = (if last_day st \<noteq> Some today
                then st\<lparr>daily_coding_minutes := 0, last_day := Some today,
                        positive_reinforcement_given := False\<rparr>
                else st);
          st = (if last_week st \<noteq> Some week
                then st\<lparr>weekly_coding_minutes := 0, last_week := Some week\<rparr>
                else st)
      in st)"

text \<open>Lines 141 to 145: the loop that adds the minutes of the sessions.\<close>

definition session_minutes :: "session \<Rightarrow> int" where
  "session_minutes s = py_int (total_seconds (last s - hd s) / 60)"

fun add_coding_minutes :: "int \<Rightarrow> int \<Rightarrow> session list \<Rightarrow> rolling_state \<Rightarrow> rolling_state" where
  "add_coding_minutes today week [] st = st"
| "add_coding_minutes today week (s # sessions) st =
     (let st = (if date (hd s) = today
                then st\<lparr>daily_coding_minutes := daily_coding_minutes st + session_minutes s\<rparr>
                else st);
          st = (if isoweek (hd s) = week
                then st\<lparr>weekly_coding_minutes := weekly_coding_minutes st + session_minutes s\<rparr>
                else st)
      in add_coding_minutes today week sessions st)"

text \<open>Lines 152 to 155: the minutes since a reminder was last shown.\<close>

definition minutes_since :: "instant option \<Rightarrow> instant \<Rightarrow> int \<Rightarrow> rat" where
  "minutes_since last_reminder now interval =
     (case last_reminder of
        Some t \<Rightarrow> total_seconds (now - t) / 60
      | None \<Rightarrow> of_int (interval + 1))"

text \<open>Lines 158 to 167: the five alerts.\<close>

definition alert_rules ::
  "session list \<Rightarrow> session list \<Rightarrow> instant list \<Rightarrow> rolling_state \<Rightarrow> notification list" where
  "alert_rules long_s no_break_s late_night st =
     (if long_s \<noteq> [] then [LongSessionAlert (length long_s)] else [])
     @ (if no_break_s \<noteq> [] then [BreakReminder] else [])
     @ (if late_night \<noteq> [] then [NightOwlAlert] else [])
     @ (if daily_coding_minutes st > 8 * 60 then [WorkLimitWarning] else [])
     @ (if weekly_coding_minutes st > 40 * 60 then [WeeklyLimitWarning] else [])"

text \<open>Lines 168 to 179: the four periodic reminders.\<close>

definition reminder_rules ::
  "rat \<Rightarrow> rat \<Rightarrow> rat \<Rightarrow> rat \<Rightarrow> instant \<Rightarrow> rolling_state \<times> notification list
     \<Rightarrow> rolling_state \<times> notification list" where
  "reminder_rules minutes_since_last_hydration minutes_since_last_activity
       minutes_since_last_ergonomics minutes_since_last_mood now p =
     (let (st, notifications) = p;
          (st, notifications) =
            (if minutes_since_last_hydration > of_int hydration_interval
             then (st\<lparr>last_hydration_reminder := Some now\<rparr>, notifications @ [HydrationReminder])
             else (st, notifications));
          (st, notifications) =
            (if minutes_since_last_activity > of_int activity_interval
             then (st\<lparr>last_activity_reminder := Some now\<rparr>, notifications @ [ActivityReminder])
             else (st, notifications));
          (st, notifications) =
            (if minutes_since_last_ergonomics > of_int ergonomics_interval
             then (st\<lparr>last_ergonomics_tip := Some now\<rparr>, notifications @ [ErgonomicsTip])
             else (st, notifications));
          (st, notifications) =
            (if minutes_since_last_mood > of_int mood_check_interval
             then (st\<lparr>last_mood_check := Some now\<rparr>, notifications @ [MoodCheckIn])
             else (st, notifications))
      in (st, notifications))"

text \<open>Lines 180 to 183: the positive reinforcement.\<close>

definition any_alert ::
  "session list \<Rightarrow> session list \<Rightarrow> instant list \<Rightarrow> rolling_state \<Rightarrow> bool" where
  "any_alert long_s no_break_s late_night st \<longleftrightarrow>
     long_s \<noteq> [] \<or> no_break_s \<noteq> [] \<or> late_night \<noteq> []
     \<or> daily_coding_minutes st > 8 * 60 \<or> weekly_coding_minutes st > 40 * 60"

definition positive_rule ::
  "session list \<Rightarrow> session list \<Rightarrow> instant list \<Rightarrow> rolling_state \<times> notification list
     \<Rightarrow> rolling_state \<times> notification list" where
  "positive_rule long_s no_break_s late_night p =
     (let (st, notifications) = p
      in if \<not> any_alert long_s no_break_s late_night st
         then (if \<not> positive_reinforcement_given st
               then (st\<lparr>positive_reinforcement_given := True\<rparr>, notifications @ [GreatJob])
               else (st, notifications))
         else (st, notifications))"

text \<open>Lines 127 to 187: the body of a tick that has sessions, after the first run.\<close>

definition evaluate ::
  "rolling_state \<Rightarrow> instant \<Rightarrow> session list \<Rightarrow> rolling_state \<times> notification list" where
  "evaluate st now sessions =
     (let today = date now;
          week = isoweek now;
          st = roll_periods today week st;
          st = add_coding_minutes today week sessions st;
          long_s = long_sessions sessions;
          no_break_s = no_break_sessions sessions;
          late_night = late_night_commits sessions;
          minutes_since_last_hydration =
            minutes_since (last_hydration_reminder st) now hydration_interval;
          minutes_since_last_activity =
            minutes_since (last_activity_reminder st) now activity_interval;
          minutes_since_last_ergonomics =
            minutes_since (last_ergonomics_tip st) now ergonomics_interval;
          minutes_since_last_mood =
            minutes_since (last_mood_check st) now mood_check_interval;
          notifications = alert_rules long_s no_break_s late_night st;
          p = reminder_rules minutes_since_last_hydration minutes_since_last_activity
                minutes_since_last_ergonomics minutes_since_last_mood now (st, notifications)
      in positive_rule long_s no_break_s late_night p)"

text \<open>
  Python's truth value of the result of \<^verbatim>\<open>analyze_sessions\<close>: \<^verbatim>\<open>None\<close> and the
  empty list are false.
\<close>

fun truthy :: "session list option \<Rightarrow> bool" where
  "truthy None = False"
| "truthy (Some sessions) = (sessions \<noteq> [])"

text \<open>
  One iteration of \<^verbatim>\<open>while True\<close>, up to the wait: the new state and the notifications
  in the order they are shown. \<^verbatim>\<open>now\<close> and the commit times are what the iteration
  reads from the clock and from \<^verbatim>\<open>git log\<close>.
\<close>

definition tick ::
  "rolling_state \<Rightarrow> instant \<Rightarrow> instant list \<Rightarrow> rolling_state \<times> notification list" where
  "tick st now commit_times =
     (let sessions = analyze_sessions commit_times
      in if first_run st then (st\<lparr>first_run := False\<rparr>, [MonitoringStarted])
         else if truthy sessions then evaluate st now (the sessions)
         else (st, [NoCommitData]))"

text \<open>Consecutive ticks, each with what it reads; the notifications tick by tick.\<close>

fun run_ticks ::
  "rolling_state \<Rightarrow> (instant \<times> instant list) list \<Rightarrow> rolling_state \<times> notification list list" where
  "run_ticks st [] = (st, [])"
| "run_ticks st ((now, commit_times) # inputs) =
     (let (st', notifications) = tick st now commit_times;
          (st'', rest) = run_ticks st' inputs
      in (st'', notifications # rest))"







section \<open>Properties of the segmentation\<close>

lemma gap_exceeds_iff:
  "minutes_between prev cur > of_int MIN_BREAK_MINUTES \<longleftrightarrow> cur - prev > 300000000"
  by (simp add: minutes_between_def total_seconds_def MIN_BREAK_MINUTES_def divide_simps)
    linarith

lemma segment_loop_length:
  "length (fst (segment_loop sessions session pairs)) =
     length sessions
     + length (filter (\<lambda>(prev, cur). minutes_between prev cur > of_int MIN_BREAK_MINUTES) pairs)"
  by (induction pairs arbitrary: sessions session) auto

lemma segment_loop_inv:
  assumes "session \<noteq> []" and "last session = x"
    and "\<forall>s\<in>set sessions. s \<noteq> []"
    and "\<forall>s\<in>set sessions. successively (\<lambda>a b. minutes_between a b \<le> of_int MIN_BREAK_MINUTES) s"
    and "successively (\<lambda>a b. minutes_between a b \<le> of_int MIN_BREAK_MINUTES) session"
    and "successively (\<lambda>s t. minutes_between (last s) (hd t) > of_int MIN_BREAK_MINUTES)
           (sessions @ [session])"
  shows "case segment_loop sessions session (zip (x # xs) xs) of (ss', s') \<Rightarrow>
           s' \<noteq> [] \<and> concat ss' @ s' = concat sessions @ session @ xs
           \<and> (\<forall>s\<in>set ss'. s \<noteq> [])
           \<and> (\<forall>s\<in>set ss'. successively (\<lambda>a b. minutes_between a b \<le> of_int MIN_BREAK_MINUTES) s)
           \<and> successively (\<lambda>a b. minutes_between a b \<le> of_int MIN_BREAK_MINUTES) s'
           \<and> successively (\<lambda>s t. minutes_between (last s) (hd t) > of_int MIN_BREAK_MINUTES)
                (ss' @ [s'])"
  using assms
proof (induction xs arbitrary: x sessions session)
  case Nil
  then show ?case by simp
next
  case (Cons y ys)
  show ?case
  proof (cases "minutes_between x y > of_int MIN_BREAK_MINUTES")
    case True
    have "case segment_loop (sessions @ [session]) [y] (zip (y # ys) ys) of (ss', s') \<Rightarrow>
           s' \<noteq> [] \<and> concat ss' @ s' = concat (sessions @ [session]) @ [y] @ ys
           \<and> (\<forall>s\<in>set ss'. s \<noteq> [])
           \<and> (\<forall>s\<in>set ss'. successively (\<lambda>a b. minutes_between a b \<le> of_int MIN_BREAK_MINUTES) s)
           \<and> successively (\<lambda>a b. minutes_between a b \<le> of_int MIN_BREAK_MINUTES) s'
           \<and> successively (\<lambda>s t. minutes_between (last s) (hd t) > of_int MIN_BREAK_MINUTES)
                (ss' @ [s'])"
      using Cons.prems True
      by (intro Cons.IH) (auto simp: successively_append_iff)
    with True show ?thesis by simp
  next
    case False
    have "case segment_loop sessions (session @ [y]) (zip (y # ys) ys) of (ss', s') \<Rightarrow>
           s' \<noteq> [] \<and> concat ss' @ s' = concat sessions @ (session @ [y]) @ ys
           \<and> (\<forall>s\<in>set ss'. s \<noteq> [])
           \<and> (\<forall>s\<in>set ss'. successively (\<lambda>a b. minutes_between a b \<le> of_int MIN_BREAK_MINUTES) s)
           \<and> successively (\<lambda>a b. minutes_between a b \<le> of_int MIN_BREAK_MINUTES) s'
           \<and> successively (\<lambda>s t. minutes_between (last s) (hd t) > of_int MIN_BREAK_MINUTES)
                (ss' @ [s'])"
      using Cons.prems False
      by (intro Cons.IH) (auto simp: successively_append_iff)
    with False show ?thesis by simp
  qed
qed


lemma analyze_sessions_props:
  assumes "commit_times \<noteq> []"
  shows "\<exists>sessions. analyze_sessions commit_times = Some sessions
     \<and> sessions \<noteq> []
     \<and> concat sessions = sort commit_times
     \<and> (\<forall>s\<in>set sessions. s \<noteq> [])
     \<and> (\<forall>s\<in>set sessions.
           successively (\<lambda>a b. minutes_between a b \<le> of_int MIN_BREAK_MINUTES) s)
     \<and> successively (\<lambda>s t. minutes_between (last s) (hd t) > of_int MIN_BREAK_MINUTES) sessions
     \<and> length sessions =
         1 + length (filter (\<lambda>(prev, cur). minutes_between prev cur > of_int MIN_BREAK_MINUTES)
                      (zip (sort commit_times) (tl (sort commit_times))))"
proof -
  from assms have "sort commit_times \<noteq> []"
    by (metis length_0_conv length_sort)
  then obtain x xs where ct: "sort commit_times = x # xs"
    by (cases "sort commit_times") auto
  obtain ss' s' where seg: "segment_loop [] [x] (zip (x # xs) xs) = (ss', s')"
    by (cases "segment_loop [] [x] (zip (x # xs) xs)") auto
  have inv: "case segment_loop [] [x] (zip (x # xs) xs) of (ss', s') \<Rightarrow>
           s' \<noteq> [] \<and> concat ss' @ s' = concat [] @ [x] @ xs
           \<and> (\<forall>s\<in>set ss'. s \<noteq> [])
           \<and> (\<forall>s\<in>set ss'. successively (\<lambda>a b. minutes_between a b \<le> of_int MIN_BREAK_MINUTES) s)
           \<and> successively (\<lambda>a b. minutes_between a b \<le> of_int MIN_BREAK_MINUTES) s'
           \<and> successively (\<lambda>s t. minutes_between (last s) (hd t) > of_int MIN_BREAK_MINUTES)
                (ss' @ [s'])"
    by (rule segment_loop_inv) simp_all
  have len: "length ss' = length (filter (\<lambda>(prev, cur). minutes_between prev cur > of_int MIN_BREAK_MINUTES)
                      (zip (x # xs) xs))"
    using segment_loop_length [of "[]" "[x]" "zip (x # xs) xs"] seg by simp
  have res: "analyze_sessions commit_times = Some (ss' @ [s'])"
    using assms ct seg inv by (simp add: analyze_sessions_def)
  show ?thesis
    using res inv seg len ct by auto
qed

text \<open>
  Every session returned holds at least one instant, so \<^verbatim>\<open>s[0]\<close> and \<^verbatim>\<open>s[-1]\<close> are
  defined wherever the scheduler reads them.
\<close>

lemma analyze_sessions_nonempty:
  "analyze_sessions commit_times = Some sessions \<Longrightarrow> s \<in> set sessions \<Longrightarrow> s \<noteq> []"
  using analyze_sessions_props [of commit_times]
  by (cases "commit_times = []") (auto simp: analyze_sessions_def)

text \<open>
  Claim C1. For every non-empty list of instants, sorted or not, with or without
  duplicates, \<^verbatim>\<open>analyze_sessions\<close> returns sessions that partition the sorted input:
  their concatenation, in order, is the sorted input; no session is empty; inside a
  session every gap between neighbours is at most \<open>MIN_BREAK_MINUTES\<close> (so a gap of
  exactly 5 minutes does not split); between the last instant of a session and the first
  of the next the gap is strictly more than \<open>MIN_BREAK_MINUTES\<close>; and there is one
  session more than there are neighbouring pairs of the sorted input whose gap strictly
  exceeds \<open>MIN_BREAK_MINUTES\<close>, that is 300000000 microseconds.
\<close>

theorem analyze_sessions_partition:
  assumes "commit_times \<noteq> []"
  shows "\<exists>sessions. analyze_sessions commit_times = Some sessions
     \<and> concat sessions = sort commit_times
     \<and> (\<forall>s\<in>set sessions. s \<noteq> [])
     \<and> (\<forall>s\<in>set sessions.
           successively (\<lambda>prev cur. minutes_between prev cur \<le> of_int MIN_BREAK_MINUTES) s)
     \<and> successively (\<lambda>s t. minutes_between (last s) (hd t) > of_int MIN_BREAK_MINUTES) sessions
     \<and> length sessions =
         1 + length (filter (\<lambda>(prev, cur). minutes_between prev cur > of_int MIN_BREAK_MINUTES)
                      (zip (sort commit_times) (tl (sort commit_times))))
     \<and> (\<forall>prev cur. minutes_between prev cur > of_int MIN_BREAK_MINUTES
                      \<longleftrightarrow> cur - prev > 300000000)"
  using analyze_sessions_props [OF assms] gap_exceeds_iff by blast

theorem analyze_sessions_partition_witness:
  "[600000000, 0, 300000000, 900000001, 0] \<noteq> ([] :: instant list)
   \<and> analyze_sessions [600000000, 0, 300000000, 900000001, 0]
       = Some [[0, 0, 300000000, 600000000], [900000001]]
   \<and> concat [[0, 0, 300000000, 600000000], [900000001]]
       = sort [600000000, 0, 300000000, 900000001, 0 :: instant]
   \<and> minutes_between 300000000 600000000 = of_int MIN_BREAK_MINUTES
   \<and> minutes_between 600000000 900000001 > of_int MIN_BREAK_MINUTES"
  using analyze_sessions_partition [of "[600000000, 0, 300000000, 900000001, 0]"]
  by (simp add: analyze_sessions_def minutes_between_def total_seconds_def
      MIN_BREAK_MINUTES_def)

text \<open>
  Claim C7, as amended. On an empty list of instants \<^verbatim>\<open>analyze_sessions\<close> returns
  no value (Python's \<^verbatim>\<open>None\<close>) and does not raise; it returns \<open>None\<close> on no other
  input, and it never returns an empty list of sessions. The callers test the truth value
  of the result, which is false for \<open>None\<close>: after the first run the scheduler takes
  the no-data branch, shows the single no-data notification and leaves its state as it
  was; on the first run it shows "monitoring started" whatever the result is.
\<close>

theorem analyze_sessions_empty_is_none:
  "analyze_sessions [] = None
   \<and> (analyze_sessions commit_times = None \<longleftrightarrow> commit_times = [])
   \<and> analyze_sessions commit_times \<noteq> Some []
   \<and> \<not> truthy (analyze_sessions [])
   \<and> (\<not> first_run st \<longrightarrow> tick st now [] = (st, [NoCommitData]))
   \<and> (first_run st \<longrightarrow> tick st now [] = (st\<lparr>first_run := False\<rparr>, [MonitoringStarted]))"
proof -
  have none: "analyze_sessions [] = None"
    by (simp add: analyze_sessions_def)
  have some: "commit_times \<noteq> [] \<Longrightarrow>
      \<exists>sessions. analyze_sessions commit_times = Some sessions \<and> sessions \<noteq> []"
    using analyze_sessions_props [of commit_times] by blast
  have a: "analyze_sessions commit_times = None \<longleftrightarrow> commit_times = []"
    using none some by (cases "commit_times = []") auto
  have b: "analyze_sessions commit_times \<noteq> Some []"
    using none some by (cases "commit_times = []") auto
  show ?thesis
    using none a b by (simp add: tick_def)
qed

theorem analyze_sessions_empty_is_none_witness:
  "\<not> first_run (initial_state\<lparr>first_run := False\<rparr>)
   \<and> tick (initial_state\<lparr>first_run := False\<rparr>) 63929390400000000 []
       = (initial_state\<lparr>first_run := False\<rparr>, [NoCommitData])
   \<and> first_run initial_state
   \<and> tick initial_state 63929390400000000 []
       = (initial_state\<lparr>first_run := False\<rparr>, [MonitoringStarted])"
  using analyze_sessions_empty_is_none
      [of "[]" "initial_state\<lparr>first_run := False\<rparr>" 63929390400000000]
    analyze_sessions_empty_is_none [of "[]" initial_state 63929390400000000]
  by (simp add: initial_state_def)

text \<open>
  The claim as stated fails: the result on the empty list is not an empty sequence of
  sessions.
\<close>

theorem analyze_sessions_empty_counterexample:
  "analyze_sessions [] \<noteq> Some [] \<and> analyze_sessions [] = None"
  by (simp add: analyze_sessions_def)

lemma successively_zip_tl:
  "successively P s \<Longrightarrow> list_all (\<lambda>(a, b). P a b) (zip s (tl s))"
  by (induction P s rule: successively.induct) auto

lemma no_break_gaps:
  assumes "successively (\<lambda>a b. minutes_between a b \<le> of_int MIN_BREAK_MINUTES) s"
  shows "list_all (\<lambda>(prev, cur). minutes_between prev cur < 60) (zip s (tl s))"
proof -
  have "successively (\<lambda>a b. minutes_between a b < 60) s"
    by (rule successively_mono [OF assms]) (auto simp: MIN_BREAK_MINUTES_def)
  then show ?thesis by (rule successively_zip_tl)
qed

text \<open>
  Claim C10. In every session that \<^verbatim>\<open>analyze_sessions\<close> returns, every gap between
  neighbouring instants is at most \<open>MIN_BREAK_MINUTES\<close> = 5 minutes, so the test that
  every gap is under 60 minutes always holds: the sessions without a break are exactly
  the sessions whose span exceeds 2 hours, and every long session (span over 3 hours) is
  one of them.
\<close>

theorem no_break_sessions_are_long_spans:
  assumes "analyze_sessions commit_times = Some sessions"
  shows "(\<forall>s\<in>set sessions.
            successively (\<lambda>prev cur. minutes_between prev cur \<le> of_int MIN_BREAK_MINUTES) s)
       \<and> (\<forall>s\<in>set sessions.
            list_all (\<lambda>(prev, cur). minutes_between prev cur < 60) (zip s (tl s)))
       \<and> no_break_sessions sessions = filter (\<lambda>s. hours_between (hd s) (last s) > 2) sessions
       \<and> set (long_sessions sessions) \<subseteq> set (no_break_sessions sessions)"
proof -
  from assms have ne: "commit_times \<noteq> []"
    by (auto simp: analyze_sessions_def)
  from analyze_sessions_props [OF ne] assms
  have within: "\<forall>s\<in>set sessions.
      successively (\<lambda>a b. minutes_between a b \<le> of_int MIN_BREAK_MINUTES) s"
    by auto
  then have gaps: "\<forall>s\<in>set sessions.
      list_all (\<lambda>(prev, cur). minutes_between prev cur < 60) (zip s (tl s))"
    using no_break_gaps by blast
  have nb: "no_break_sessions sessions = filter (\<lambda>s. hours_between (hd s) (last s) > 2) sessions"
    unfolding no_break_sessions_def using gaps by (intro filter_cong) auto
  have "set (long_sessions sessions) \<subseteq> set (no_break_sessions sessions)"
    unfolding nb by (auto simp: long_sessions_def LONG_SESSION_HOURS_def)
  with within gaps nb show ?thesis by blast
qed

theorem no_break_sessions_are_long_spans_witness:
  "analyze_sessions (12000000000 # [0, 300000000, 600000000, 900000000, 1200000000, 1500000000, 1800000000, 2100000000, 2400000000, 2700000000, 3000000000, 3300000000, 3600000000, 3900000000, 4200000000, 4500000000, 4800000000, 5100000000, 5400000000, 5700000000, 6000000000, 6300000000, 6600000000, 6900000000, 7200000000, 7500000000, 7800000000, 8100000000, 8400000000, 8700000000, 9000000000, 9300000000, 9600000000, 9900000000, 10200000000, 10500000000, 10800000000, 11100000000]) = Some [[0, 300000000, 600000000, 900000000, 1200000000, 1500000000, 1800000000, 2100000000, 2400000000, 2700000000, 3000000000, 3300000000, 3600000000, 3900000000, 4200000000, 4500000000, 4800000000, 5100000000, 5400000000, 5700000000, 6000000000, 6300000000, 6600000000, 6900000000, 7200000000, 7500000000, 7800000000, 8100000000, 8400000000, 8700000000, 9000000000, 9300000000, 9600000000, 9900000000, 10200000000, 10500000000, 10800000000, 11100000000], [12000000000]]
   \<and> no_break_sessions [[0, 300000000, 600000000, 900000000, 1200000000, 1500000000, 1800000000, 2100000000, 2400000000, 2700000000, 3000000000, 3300000000, 3600000000, 3900000000, 4200000000, 4500000000, 4800000000, 5100000000, 5400000000, 5700000000, 6000000000, 6300000000, 6600000000, 6900000000, 7200000000, 7500000000, 7800000000, 8100000000, 8400000000, 8700000000, 9000000000, 9300000000, 9600000000, 9900000000, 10200000000, 10500000000, 10800000000, 11100000000], [12000000000]] = [[0, 300000000, 600000000, 900000000, 1200000000, 1500000000, 1800000000, 2100000000, 2400000000, 2700000000, 3000000000, 3300000000, 3600000000, 3900000000, 4200000000, 4500000000, 4800000000, 5100000000, 5400000000, 5700000000, 6000000000, 6300000000, 6600000000, 6900000000, 7200000000, 7500000000, 7800000000, 8100000000, 8400000000, 8700000000, 9000000000, 9300000000, 9600000000, 9900000000, 10200000000, 10500000000, 10800000000, 11100000000]]
   \<and> long_sessions [[0, 300000000, 600000000, 900000000, 1200000000, 1500000000, 1800000000, 2100000000, 2400000000, 2700000000, 3000000000, 3300000000, 3600000000, 3900000000, 4200000000, 4500000000, 4800000000, 5100000000, 5400000000, 5700000000, 6000000000, 6300000000, 6600000000, 6900000000, 7200000000, 7500000000, 7800000000, 8100000000, 8400000000, 8700000000, 9000000000, 9300000000, 9600000000, 9900000000, 10200000000, 10500000000, 10800000000, 11100000000], [12000000000]] = [[0, 300000000, 600000000, 900000000, 1200000000, 1500000000, 1800000000, 2100000000, 2400000000, 2700000000, 3000000000, 3300000000, 3600000000, 3900000000, 4200000000, 4500000000, 4800000000, 5100000000, 5400000000, 5700000000, 6000000000, 6300000000, 6600000000, 6900000000, 7200000000, 7500000000, 7800000000, 8100000000, 8400000000, 8700000000, 9000000000, 9300000000, 9600000000, 9900000000, 10200000000, 10500000000, 10800000000, 11100000000]]"
  using no_break_sessions_are_long_spans [of "12000000000 # [0, 300000000, 600000000, 900000000, 1200000000, 1500000000, 1800000000, 2100000000, 2400000000, 2700000000, 3000000000, 3300000000, 3600000000, 3900000000, 4200000000, 4500000000, 4800000000, 5100000000, 5400000000, 5700000000, 6000000000, 6300000000, 6600000000, 6900000000, 7200000000, 7500000000, 7800000000, 8100000000, 8400000000, 8700000000, 9000000000, 9300000000, 9600000000, 9900000000, 10200000000, 10500000000, 10800000000, 11100000000]" "[[0, 300000000, 600000000, 900000000, 1200000000, 1500000000, 1800000000, 2100000000, 2400000000, 2700000000, 3000000000, 3300000000, 3600000000, 3900000000, 4200000000, 4500000000, 4800000000, 5100000000, 5400000000, 5700000000, 6000000000, 6300000000, 6600000000, 6900000000, 7200000000, 7500000000, 7800000000, 8100000000, 8400000000, 8700000000, 9000000000, 9300000000, 9600000000, 9900000000, 10200000000, 10500000000, 10800000000, 11100000000], [12000000000]]"]
  by (simp add: analyze_sessions_def minutes_between_def hours_between_def total_seconds_def
      MIN_BREAK_MINUTES_def LONG_SESSION_HOURS_def no_break_sessions_def long_sessions_def)

section \<open>Late-night commits\<close>

lemma hour_range: "0 \<le> hour c \<and> hour c < 24"
  by (simp add: hour_def)

lemma hour_of_day_offset: "hour (day * 86400000000 + k) = (k div 3600000000) mod 24"
proof -
  have "day * 86400000000 + k = k + (day * 24) * 3600000000"
    by simp
  then have "(day * 86400000000 + k) div 3600000000 = day * 24 + k div 3600000000"
    by (simp only: div_mult_self1)
  then show ?thesis
    by (simp add: hour_def)
qed

text \<open>
  Claim C8. An instant counts as late at night exactly when its hour lies in
  \<open>[LATE_NIGHT_START, 24)\<close> or in \<open>[0, LATE_NIGHT_END)\<close>, with 22 and 6; the
  late-night commits are the instants of the sessions that do. On any day, 23:30 and
  05:59 are late at night and 07:00 is not.
\<close>

theorem late_night_wraps_around:
  "(is_late_night c \<longleftrightarrow> hour c \<in> {LATE_NIGHT_START ..< 24} \<union> {0 ..< LATE_NIGHT_END})
   \<and> LATE_NIGHT_START = 22 \<and> LATE_NIGHT_END = 6
   \<and> late_night_commits sessions = filter is_late_night (concat sessions)
   \<and> is_late_night (day * 86400000000 + (23 * 3600 + 30 * 60) * 1000000)
   \<and> is_late_night (day * 86400000000 + (5 * 3600 + 59 * 60) * 1000000)
   \<and> \<not> is_late_night (day * 86400000000 + (7 * 3600) * 1000000)"
proof -
  have a: "is_late_night c \<longleftrightarrow> hour c \<in> {LATE_NIGHT_START ..< 24} \<union> {0 ..< LATE_NIGHT_END}"
    using hour_range [of c] by (auto simp: is_late_night_def)
  have b: "is_late_night (day * 86400000000 + (23 * 3600 + 30 * 60) * 1000000)"
    by (simp add: is_late_night_def hour_of_day_offset LATE_NIGHT_START_def)
  have c: "is_late_night (day * 86400000000 + (5 * 3600 + 59 * 60) * 1000000)"
    by (simp add: is_late_night_def hour_of_day_offset LATE_NIGHT_END_def)
  have d: "\<not> is_late_night (day * 86400000000 + (7 * 3600) * 1000000)"
    by (simp add: is_late_night_def hour_of_day_offset LATE_NIGHT_START_def LATE_NIGHT_END_def)
  show ?thesis
    using a b c d by (simp add: late_night_commits_def LATE_NIGHT_START_def LATE_NIGHT_END_def)
qed

section \<open>Properties of the scheduler\<close>

lemma roll_periods_eq:
  "roll_periods today week st =
     st\<lparr>daily_coding_minutes := (if last_day st \<noteq> Some today then 0 else daily_coding_minutes st),
        last_day := Some today,
        positive_reinforcement_given :=
          (if last_day st \<noteq> Some today then False else positive_reinforcement_given st),
        weekly_coding_minutes := (if last_week st \<noteq> Some week then 0 else weekly_coding_minutes st),
        last_week := Some week\<rparr>"
  by (simp add: roll_periods_def)

lemma add_coding_minutes_eq:
  "add_coding_minutes today week sessions st =
     st\<lparr>daily_coding_minutes := daily_coding_minutes st
            + sum_list (map session_minutes (filter (\<lambda>s. date (hd s) = today) sessions)),
        weekly_coding_minutes := weekly_coding_minutes st
            + sum_list (map session_minutes (filter (\<lambda>s. isoweek (hd s) = week) sessions))\<rparr>"
  by (induction sessions arbitrary: st) (simp_all add: Let_def)

lemma reminder_rules_eq:
  "reminder_rules h a e m now (st, ns) =
     (st\<lparr>last_hydration_reminder :=
            (if h > of_int hydration_interval then Some now else last_hydration_reminder st),
         last_activity_reminder :=
            (if a > of_int activity_interval then Some now else last_activity_reminder st),
         last_ergonomics_tip :=
            (if e > of_int ergonomics_interval then Some now else last_ergonomics_tip st),
         last_mood_check :=
            (if m > of_int mood_check_interval then Some now else last_mood_check st)\<rparr>,
      ns @ (if h > of_int hydration_interval then [HydrationReminder] else [])
         @ (if a > of_int activity_interval then [ActivityReminder] else [])
         @ (if e > of_int ergonomics_interval then [ErgonomicsTip] else [])
         @ (if m > of_int mood_check_interval then [MoodCheckIn] else []))"
  by (simp add: reminder_rules_def)

lemma positive_rule_eq:
  "positive_rule long_s no_break_s late_night (st, ns) =
     (st\<lparr>positive_reinforcement_given :=
            (positive_reinforcement_given st \<or> \<not> any_alert long_s no_break_s late_night st)\<rparr>,
      ns @ (if \<not> any_alert long_s no_break_s late_night st \<and> \<not> positive_reinforcement_given st
            then [GreatJob] else []))"
  by (simp add: positive_rule_def)


lemmas evaluate_unfold =
  evaluate_def Let_def roll_periods_eq add_coding_minutes_eq reminder_rules_eq positive_rule_eq

lemma evaluate_daily:
  "daily_coding_minutes (fst (evaluate st now sessions)) =
     (if last_day st \<noteq> Some (date now) then 0 else daily_coding_minutes st)
     + sum_list (map session_minutes (filter (\<lambda>s. date (hd s) = date now) sessions))"
  by (simp add: evaluate_unfold)

lemma evaluate_weekly:
  "weekly_coding_minutes (fst (evaluate st now sessions)) =
     (if last_week st \<noteq> Some (isoweek now) then 0 else weekly_coding_minutes st)
     + sum_list (map session_minutes (filter (\<lambda>s. isoweek (hd s) = isoweek now) sessions))"
  by (simp add: evaluate_unfold)

lemma evaluate_periods:
  "last_day (fst (evaluate st now sessions)) = Some (date now)"
  "last_week (fst (evaluate st now sessions)) = Some (isoweek now)"
  "first_run (fst (evaluate st now sessions)) = first_run st"
  by (simp_all add: evaluate_unfold)

lemma evaluate_last_reminders:
  "last_hydration_reminder (fst (evaluate st now sessions)) =
     (if minutes_since (last_hydration_reminder st) now hydration_interval > of_int hydration_interval
      then Some now else last_hydration_reminder st)"
  "last_activity_reminder (fst (evaluate st now sessions)) =
     (if minutes_since (last_activity_reminder st) now activity_interval > of_int activity_interval
      then Some now else last_activity_reminder st)"
  "last_ergonomics_tip (fst (evaluate st now sessions)) =
     (if minutes_since (last_ergonomics_tip st) now ergonomics_interval > of_int ergonomics_interval
      then Some now else last_ergonomics_tip st)"
  "last_mood_check (fst (evaluate st now sessions)) =
     (if minutes_since (last_mood_check st) now mood_check_interval > of_int mood_check_interval
      then Some now else last_mood_check st)"
  by (simp_all add: evaluate_unfold)

lemma alert_rules_no_reminder:
  "HydrationReminder \<notin> set (alert_rules l nb lt st)"
  "ActivityReminder \<notin> set (alert_rules l nb lt st)"
  "ErgonomicsTip \<notin> set (alert_rules l nb lt st)"
  "MoodCheckIn \<notin> set (alert_rules l nb lt st)"
  "GreatJob \<notin> set (alert_rules l nb lt st)"
  by (simp_all add: alert_rules_def)

lemma evaluate_reminders_shown:
  "HydrationReminder \<in> set (snd (evaluate st now sessions)) \<longleftrightarrow>
     minutes_since (last_hydration_reminder st) now hydration_interval > of_int hydration_interval"
  "ActivityReminder \<in> set (snd (evaluate st now sessions)) \<longleftrightarrow>
     minutes_since (last_activity_reminder st) now activity_interval > of_int activity_interval"
  "ErgonomicsTip \<in> set (snd (evaluate st now sessions)) \<longleftrightarrow>
     minutes_since (last_ergonomics_tip st) now ergonomics_interval > of_int ergonomics_interval"
  "MoodCheckIn \<in> set (snd (evaluate st now sessions)) \<longleftrightarrow>
     minutes_since (last_mood_check st) now mood_check_interval > of_int mood_check_interval"
  by (simp_all add: evaluate_unfold alert_rules_no_reminder)


lemma tick_first_run:
  "first_run st \<Longrightarrow> tick st now commit_times = (st\<lparr>first_run := False\<rparr>, [MonitoringStarted])"
  by (simp add: tick_def)

lemma tick_no_data:
  "\<not> first_run st \<Longrightarrow> tick st now [] = (st, [NoCommitData])"
  by (simp add: tick_def analyze_sessions_def)

lemma truthy_analyze_sessions: "truthy (analyze_sessions commit_times) \<longleftrightarrow> commit_times \<noteq> []"
proof (cases "commit_times = []")
  case True
  then show ?thesis by (simp add: analyze_sessions_def)
next
  case False
  from analyze_sessions_props [OF False] show ?thesis using False by auto
qed

lemma tick_evaluate:
  "\<not> first_run st \<Longrightarrow> commit_times \<noteq> [] \<Longrightarrow>
     tick st now commit_times = evaluate st now (the (analyze_sessions commit_times))"
  by (simp add: tick_def truthy_analyze_sessions)

lemma tick_cases:
  obtains (first) "first_run st"
      "tick st now commit_times = (st\<lparr>first_run := False\<rparr>, [MonitoringStarted])"
  | (no_data) "\<not> first_run st" "commit_times = []"
      "tick st now commit_times = (st, [NoCommitData])"
  | (rules) "\<not> first_run st" "commit_times \<noteq> []"
      "tick st now commit_times = evaluate st now (the (analyze_sessions commit_times))"
  using tick_first_run tick_no_data tick_evaluate by (cases "first_run st"; cases "commit_times = []") auto

lemma tick_hydration:
  "(HydrationReminder \<in> set (snd (tick st now commit_times)) \<longleftrightarrow>
      \<not> first_run st \<and> commit_times \<noteq> []
      \<and> (case last_hydration_reminder st of None \<Rightarrow> True
          | Some t \<Rightarrow> minutes_between t now > 60))
   \<and> last_hydration_reminder (fst (tick st now commit_times)) =
       (if HydrationReminder \<in> set (snd (tick st now commit_times)) then Some now
        else last_hydration_reminder st)"
  by (rule tick_cases [where st = st and now = now and commit_times = commit_times])
    (simp_all add: evaluate_reminders_shown evaluate_last_reminders minutes_since_def
      minutes_between_def hydration_interval_def activity_interval_def ergonomics_interval_def
      mood_check_interval_def split: option.split)

lemma tick_activity:
  "(ActivityReminder \<in> set (snd (tick st now commit_times)) \<longleftrightarrow>
      \<not> first_run st \<and> commit_times \<noteq> []
      \<and> (case last_activity_reminder st of None \<Rightarrow> True
          | Some t \<Rightarrow> minutes_between t now > 90))
   \<and> last_activity_reminder (fst (tick st now commit_times)) =
       (if ActivityReminder \<in> set (snd (tick st now commit_times)) then Some now
        else last_activity_reminder st)"
  by (rule tick_cases [where st = st and now = now and commit_times = commit_times])
    (simp_all add: evaluate_reminders_shown evaluate_last_reminders minutes_since_def
      minutes_between_def hydration_interval_def activity_interval_def ergonomics_interval_def
      mood_check_interval_def split: option.split)

lemma tick_ergonomics:
  "(ErgonomicsTip \<in> set (snd (tick st now commit_times)) \<longleftrightarrow>
      \<not> first_run st \<and> commit_times \<noteq> []
      \<and> (case last_ergonomics_tip st of None \<Rightarrow> True
          | Some t \<Rightarrow> minutes_between t now > 120))
   \<and> last_ergonomics_tip (fst (tick st now commit_times)) =
       (if ErgonomicsTip \<in> set (snd (tick st now commit_times)) then Some now
        else last_ergonomics_tip st)"
  by (rule tick_cases [where st = st and now = now and commit_times = commit_times])
    (simp_all add: evaluate_reminders_shown evaluate_last_reminders minutes_since_def
      minutes_between_def hydration_interval_def activity_interval_def ergonomics_interval_def
      mood_check_interval_def split: option.split)

lemma tick_mood:
  "(MoodCheckIn \<in> set (snd (tick st now commit_times)) \<longleftrightarrow>
      \<not> first_run st \<and> commit_times \<noteq> []
      \<and> (case last_mood_check st of None \<Rightarrow> True
          | Some t \<Rightarrow> minutes_between t now > 180))
   \<and> last_mood_check (fst (tick st now commit_times)) =
       (if MoodCheckIn \<in> set (snd (tick st now commit_times)) then Some now
        else last_mood_check st)"
  by (rule tick_cases [where st = st and now = now and commit_times = commit_times])
    (simp_all add: evaluate_reminders_shown evaluate_last_reminders minutes_since_def
      minutes_between_def hydration_interval_def activity_interval_def ergonomics_interval_def
      mood_check_interval_def split: option.split)


lemma run_ticks_hydration_quiet:
  assumes "last_hydration_reminder st = Some t0"
    and "\<forall>(now, commit_times) \<in> set inputs. minutes_between t0 now \<le> 60"
  shows "last_hydration_reminder (fst (run_ticks st inputs)) = Some t0
       \<and> (\<forall>ns \<in> set (snd (run_ticks st inputs)). HydrationReminder \<notin> set ns)"
  using assms
proof (induction inputs arbitrary: st)
  case Nil
  then show ?case by simp
next
  case (Cons input inputs)
  obtain now commit_times where input: "input = (now, commit_times)"
    by (cases input)
  from Cons.prems input have le: "minutes_between t0 now \<le> 60"
    by simp
  have quiet: "HydrationReminder \<notin> set (snd (tick st now commit_times))"
    using tick_hydration [of st now commit_times] Cons.prems(1) le by simp
  have "last_hydration_reminder (fst (tick st now commit_times)) =
       (if HydrationReminder \<in> set (snd (tick st now commit_times)) then Some now
        else last_hydration_reminder st)"
    using tick_hydration [of st now commit_times] by (rule conjunct2)
  with quiet Cons.prems(1) have kept: "last_hydration_reminder (fst (tick st now commit_times)) = Some t0"
    by simp
  have rest: "last_hydration_reminder (fst (run_ticks (fst (tick st now commit_times)) inputs)) = Some t0
       \<and> (\<forall>ns \<in> set (snd (run_ticks (fst (tick st now commit_times)) inputs)). HydrationReminder \<notin> set ns)"
    using Cons.prems(2) by (intro Cons.IH kept) simp
  show ?case
    using quiet rest by (simp add: input split_beta)
qed

lemma run_ticks_activity_quiet:
  assumes "last_activity_reminder st = Some t0"
    and "\<forall>(now, commit_times) \<in> set inputs. minutes_between t0 now \<le> 90"
  shows "last_activity_reminder (fst (run_ticks st inputs)) = Some t0
       \<and> (\<forall>ns \<in> set (snd (run_ticks st inputs)). ActivityReminder \<notin> set ns)"
  using assms
proof (induction inputs arbitrary: st)
  case Nil
  then show ?case by simp
next
  case (Cons input inputs)
  obtain now commit_times where input: "input = (now, commit_times)"
    by (cases input)
  from Cons.prems input have le: "minutes_between t0 now \<le> 90"
    by simp
  have quiet: "ActivityReminder \<notin> set (snd (tick st now commit_times))"
    using tick_activity [of st now commit_times] Cons.prems(1) le by simp
  have "last_activity_reminder (fst (tick st now commit_times)) =
       (if ActivityReminder \<in> set (snd (tick st now commit_times)) then Some now
        else last_activity_reminder st)"
    using tick_activity [of st now commit_times] by (rule conjunct2)
  with quiet Cons.prems(1) have kept: "last_activity_reminder (fst (tick st now commit_times)) = Some t0"
    by simp
  have rest: "last_activity_reminder (fst (run_ticks (fst (tick st now commit_times)) inputs)) = Some t0
       \<and> (\<forall>ns \<in> set (snd (run_ticks (fst (tick st now commit_times)) inputs)). ActivityReminder \<notin> set ns)"
    using Cons.prems(2) by (intro Cons.IH kept) simp
  show ?case
    using quiet rest by (simp add: input split_beta)
qed

lemma run_ticks_ergonomics_quiet:
  assumes "last_ergonomics_tip st = Some t0"
    and "\<forall>(now, commit_times) \<in> set inputs. minutes_between t0 now \<le> 120"
  shows "last_ergonomics_tip (fst (run_ticks st inputs)) = Some t0
       \<and> (\<forall>ns \<in> set (snd (run_ticks st inputs)). ErgonomicsTip \<notin> set ns)"
  using assms
proof (induction inputs arbitrary: st)
  case Nil
  then show ?case by simp
next
  case (Cons input inputs)
  obtain now commit_times where input: "input = (now, commit_times)"
    by (cases input)
  from Cons.prems input have le: "minutes_between t0 now \<le> 120"
    by simp
  have quiet: "ErgonomicsTip \<notin> set (snd (tick st now commit_times))"
    using tick_ergonomics [of st now commit_times] Cons.prems(1) le by simp
  have "last_ergonomics_tip (fst (tick st now commit_times)) =
       (if ErgonomicsTip \<in> set (snd (tick st now commit_times)) then Some now
        else last_ergonomics_tip st)"
    using tick_ergonomics [of st now commit_times] by (rule conjunct2)
  with quiet Cons.prems(1) have kept: "last_ergonomics_tip (fst (tick st now commit_times)) = Some t0"
    by simp
  have rest: "last_ergonomics_tip (fst (run_ticks (fst (tick st now commit_times)) inputs)) = Some t0
       \<and> (\<forall>ns \<in> set (snd (run_ticks (fst (tick st now commit_times)) inputs)). ErgonomicsTip \<notin> set ns)"
    using Cons.prems(2) by (intro Cons.IH kept) simp
  show ?case
    using quiet rest by (simp add: input split_beta)
qed

lemma run_ticks_mood_quiet:
  assumes "last_mood_check st = Some t0"
    and "\<forall>(now, commit_times) \<in> set inputs. minutes_between t0 now \<le> 180"
  shows "last_mood_check (fst (run_ticks st inputs)) = Some t0
       \<and> (\<forall>ns \<in> set (snd (run_ticks st inputs)). MoodCheckIn \<notin> set ns)"
  using assms
proof (induction inputs arbitrary: st)
  case Nil
  then show ?case by simp
next
  case (Cons input inputs)
  obtain now commit_times where input: "input = (now, commit_times)"
    by (cases input)
  from Cons.prems input have le: "minutes_between t0 now \<le> 180"
    by simp
  have quiet: "MoodCheckIn \<notin> set (snd (tick st now commit_times))"
    using tick_mood [of st now commit_times] Cons.prems(1) le by simp
  have "last_mood_check (fst (tick st now commit_times)) =
       (if MoodCheckIn \<in> set (snd (tick st now commit_times)) then Some now
        else last_mood_check st)"
    using tick_mood [of st now commit_times] by (rule conjunct2)
  with quiet Cons.prems(1) have kept: "last_mood_check (fst (tick st now commit_times)) = Some t0"
    by simp
  have rest: "last_mood_check (fst (run_ticks (fst (tick st now commit_times)) inputs)) = Some t0
       \<and> (\<forall>ns \<in> set (snd (run_ticks (fst (tick st now commit_times)) inputs)). MoodCheckIn \<notin> set ns)"
    using Cons.prems(2) by (intro Cons.IH kept) simp
  show ?case
    using quiet rest by (simp add: input split_beta)
qed


text \<open>
  Claim C2, as amended. The first-run test comes before the test for sessions: on the
  first tick the scheduler shows "monitoring started" and clears \<open>first_run\<close> whatever
  the commit history is, also when there are no sessions. On every later tick without
  sessions it shows the single no-data notification and leaves the state unchanged.
\<close>

theorem no_data_after_first_run:
  "(\<not> first_run st \<and> \<not> truthy (analyze_sessions commit_times) \<longrightarrow>
      tick st now commit_times = (st, [NoCommitData]))
   \<and> (first_run st \<longrightarrow>
      tick st now commit_times = (st\<lparr>first_run := False\<rparr>, [MonitoringStarted]))"
  by (simp add: tick_def)

theorem no_data_after_first_run_witness:
  "\<not> first_run (initial_state\<lparr>first_run := False\<rparr>)
   \<and> \<not> truthy (analyze_sessions [])
   \<and> tick (initial_state\<lparr>first_run := False\<rparr>) 63929390400000000 []
       = (initial_state\<lparr>first_run := False\<rparr>, [NoCommitData])
   \<and> first_run initial_state
   \<and> tick initial_state 63929390400000000 [63929390000000000]
       = (initial_state\<lparr>first_run := False\<rparr>, [MonitoringStarted])"
  using no_data_after_first_run [of "initial_state\<lparr>first_run := False\<rparr>" "[]" 63929390400000000]
    no_data_after_first_run [of initial_state "[63929390000000000]" 63929390400000000]
  by (simp add: initial_state_def analyze_sessions_def)

text \<open>
  The claim as stated fails on the very first tick: with no commits at all, the first
  tick shows "monitoring started", not "no data", and it changes the state.
\<close>

theorem no_data_on_first_tick_counterexample:
  "analyze_sessions [] = None
   \<and> tick initial_state 63929390400000000 []
       = (initial_state\<lparr>first_run := False\<rparr>, [MonitoringStarted])
   \<and> snd (tick initial_state 63929390400000000 []) \<noteq> [NoCommitData]
   \<and> fst (tick initial_state 63929390400000000 []) \<noteq> initial_state"
  by (simp add: tick_def analyze_sessions_def initial_state_def)

lemma hydration_debounced:
  "(HydrationReminder \<in> set (snd (tick st now commit_times)) \<longleftrightarrow>
      \<not> first_run st \<and> commit_times \<noteq> []
      \<and> (case last_hydration_reminder st of None \<Rightarrow> True | Some t \<Rightarrow> minutes_between t now > 60))
   \<and> last_hydration_reminder (fst (tick st now commit_times)) =
       (if HydrationReminder \<in> set (snd (tick st now commit_times)) then Some now
        else last_hydration_reminder st)
   \<and> (last_hydration_reminder st = Some t0
        \<and> (\<forall>(now, commit_times) \<in> set inputs. minutes_between t0 now \<le> 60) \<longrightarrow>
      last_hydration_reminder (fst (run_ticks st inputs)) = Some t0
      \<and> (\<forall>ns \<in> set (snd (run_ticks st inputs)). HydrationReminder \<notin> set ns))"
proof -
  have "last_hydration_reminder st = Some t0
        \<and> (\<forall>(now, commit_times) \<in> set inputs. minutes_between t0 now \<le> 60) \<longrightarrow>
      last_hydration_reminder (fst (run_ticks st inputs)) = Some t0
      \<and> (\<forall>ns \<in> set (snd (run_ticks st inputs)). HydrationReminder \<notin> set ns)"
    using run_ticks_hydration_quiet [of st t0 inputs] by (intro impI) (elim conjE)
  with tick_hydration [of st now commit_times] show ?thesis
    by (intro conjI) (erule conjunct1, erule conjunct2, assumption)
qed

lemma activity_debounced:
  "(ActivityReminder \<in> set (snd (tick st now commit_times)) \<longleftrightarrow>
      \<not> first_run st \<and> commit_times \<noteq> []
      \<and> (case last_activity_reminder st of None \<Rightarrow> True | Some t \<Rightarrow> minutes_between t now > 90))
   \<and> last_activity_reminder (fst (tick st now commit_times)) =
       (if ActivityReminder \<in> set (snd (tick st now commit_times)) then Some now
        else last_activity_reminder st)
   \<and> (last_activity_reminder st = Some t0
        \<and> (\<forall>(now, commit_times) \<in> set inputs. minutes_between t0 now \<le> 90) \<longrightarrow>
      last_activity_reminder (fst (run_ticks st inputs)) = Some t0
      \<and> (\<forall>ns \<in> set (snd (run_ticks st inputs)). ActivityReminder \<notin> set ns))"
proof -
  have "last_activity_reminder st = Some t0
        \<and> (\<forall>(now, commit_times) \<in> set inputs. minutes_between t0 now \<le> 90) \<longrightarrow>
      last_activity_reminder (fst (run_ticks st inputs)) = Some t0
      \<and> (\<forall>ns \<in> set (snd (run_ticks st inputs)). ActivityReminder \<notin> set ns)"
    using run_ticks_activity_quiet [of st t0 inputs] by (intro impI) (elim conjE)
  with tick_activity [of st now commit_times] show ?thesis
    by (intro conjI) (erule conjunct1, erule conjunct2, assumption)
qed

lemma ergonomics_debounced:
  "(ErgonomicsTip \<in> set (snd (tick st now commit_times)) \<longleftrightarrow>
      \<not> first_run st \<and> commit_times \<noteq> []
      \<and> (case last_ergonomics_tip st of None \<Rightarrow> True | Some t \<Rightarrow> minutes_between t now > 120))
   \<and> last_ergonomics_tip (fst (tick st now commit_times)) =
       (if ErgonomicsTip \<in> set (snd (tick st now commit_times)) then Some now
        else last_ergonomics_tip st)
   \<and> (last_ergonomics_tip st = Some t0
        \<and> (\<forall>(now, commit_times) \<in> set inputs. minutes_between t0 now \<le> 120) \<longrightarrow>
      last_ergonomics_tip (fst (run_ticks st inputs)) = Some t0
      \<and> (\<forall>ns \<in> set (snd (run_ticks st inputs)). ErgonomicsTip \<notin> set ns))"
proof -
  have "last_ergonomics_tip st = Some t0
        \<and> (\<forall>(now, commit_times) \<in> set inputs. minutes_between t0 now \<le> 120) \<longrightarrow>
      last_ergonomics_tip (fst (run_ticks st inputs)) = Some t0
      \<and> (\<forall>ns \<in> set (snd (run_ticks st inputs)). ErgonomicsTip \<notin> set ns)"
    using run_ticks_ergonomics_quiet [of st t0 inputs] by (intro impI) (elim conjE)
  with tick_ergonomics [of st now commit_times] show ?thesis
    by (intro conjI) (erule conjunct1, erule conjunct2, assumption)
qed

lemma mood_debounced:
  "(MoodCheckIn \<in> set (snd (tick st now commit_times)) \<longleftrightarrow>
      \<not> first_run st \<and> commit_times \<noteq> []
      \<and> (case last_mood_check st of None \<Rightarrow> True | Some t \<Rightarrow> minutes_between t now > 180))
   \<and> last_mood_check (fst (tick st now commit_times)) =
       (if MoodCheckIn \<in> set (snd (tick st now commit_times)) then Some now
        else last_mood_check st)
   \<and> (last_mood_check st = Some t0
        \<and> (\<forall>(now, commit_times) \<in> set inputs. minutes_between t0 now \<le> 180) \<longrightarrow>
      last_mood_check (fst (run_ticks st inputs)) = Some t0
      \<and> (\<forall>ns \<in> set (snd (run_ticks st inputs)). MoodCheckIn \<notin> set ns))"
proof -
  have "last_mood_check st = Some t0
        \<and> (\<forall>(now, commit_times) \<in> set inputs. minutes_between t0 now \<le> 180) \<longrightarrow>
      last_mood_check (fst (run_ticks st inputs)) = Some t0
      \<and> (\<forall>ns \<in> set (snd (run_ticks st inputs)). MoodCheckIn \<notin> set ns)"
    using run_ticks_mood_quiet [of st t0 inputs] by (intro impI) (elim conjE)
  with tick_mood [of st now commit_times] show ?thesis
    by (intro conjI) (erule conjunct1, erule conjunct2, assumption)
qed

text \<open>
  Claim C4. On any tick, the hydration reminder is shown exactly when the tick evaluates
  the rules (it is not the first run and there are commits) and either no hydration
  reminder was shown before or strictly more than 60 minutes lie between the last one and
  \<open>now\<close>; \<open>last_hydration_reminder\<close> becomes \<open>now\<close> exactly when it is shown and is
  unchanged otherwise. Hence, once it was shown at \<open>t0\<close>, it is not shown on any later
  tick whose \<open>now\<close> is at most 60 minutes after \<open>t0\<close>. The activity reminder (90
  minutes), the ergonomics tip (120) and the mood check-in (180) behave the same way on
  their own timestamps.
\<close>

theorem periodic_reminders_debounced:
  "((HydrationReminder \<in> set (snd (tick st now commit_times)) \<longleftrightarrow>
      \<not> first_run st \<and> commit_times \<noteq> []
      \<and> (case last_hydration_reminder st of None \<Rightarrow> True | Some t \<Rightarrow> minutes_between t now > 60))
   \<and> last_hydration_reminder (fst (tick st now commit_times)) =
       (if HydrationReminder \<in> set (snd (tick st now commit_times)) then Some now
        else last_hydration_reminder st)
   \<and> (last_hydration_reminder st = Some t0
        \<and> (\<forall>(now, commit_times) \<in> set inputs. minutes_between t0 now \<le> 60) \<longrightarrow>
      last_hydration_reminder (fst (run_ticks st inputs)) = Some t0
      \<and> (\<forall>ns \<in> set (snd (run_ticks st inputs)). HydrationReminder \<notin> set ns)))
   \<and> ((ActivityReminder \<in> set (snd (tick st now commit_times)) \<longleftrightarrow>
      \<not> first_run st \<and> commit_times \<noteq> []
      \<and> (case last_activity_reminder st of None \<Rightarrow> True | Some t \<Rightarrow> minutes_between t now > 90))
   \<and> last_activity_reminder (fst (tick st now commit_times)) =
       (if ActivityReminder \<in> set (snd (tick st now commit_times)) then Some now
        else last_activity_reminder st)
   \<and> (last_activity_reminder st = Some t0
        \<and> (\<forall>(now, commit_times) \<in> set inputs. minutes_between t0 now \<le> 90) \<longrightarrow>
      last_activity_reminder (fst (run_ticks st inputs)) = Some t0
      \<and> (\<forall>ns \<in> set (snd (run_ticks st inputs)). ActivityReminder \<notin> set ns)))
   \<and> ((ErgonomicsTip \<in> set (snd (tick st now commit_times)) \<longleftrightarrow>
      \<not> first_run st \<and> commit_times \<noteq> []
      \<and> (case last_ergonomics_tip st of None \<Rightarrow> True | Some t \<Rightarrow> minutes_between t now > 120))
   \<and> last_ergonomics_tip (fst (tick st now commit_times)) =
       (if ErgonomicsTip \<in> set (snd (tick st now commit_times)) then Some now
        else last_ergonomics_tip st)
   \<and> (last_ergonomics_tip st = Some t0
        \<and> (\<forall>(now, commit_times) \<in> set inputs. minutes_between t0 now \<le> 120) \<longrightarrow>
      last_ergonomics_tip (fst (run_ticks st inputs)) = Some t0
      \<and> (\<forall>ns \<in> set (snd (run_ticks st inputs)). ErgonomicsTip \<notin> set ns)))
   \<and> ((MoodCheckIn \<in> set (snd (tick st now commit_times)) \<longleftrightarrow>
      \<not> first_run st \<and> commit_times \<noteq> []
      \<and> (case last_mood_check st of None \<Rightarrow> True | Some t \<Rightarrow> minutes_between t now > 180))
   \<and> last_mood_check (fst (tick st now commit_times)) =
       (if MoodCheckIn \<in> set (snd (tick st now commit_times)) then Some now
        else last_mood_check st)
   \<and> (last_mood_check st = Some t0
        \<and> (\<forall>(now, commit_times) \<in> set inputs. minutes_between t0 now \<le> 180) \<longrightarrow>
      last_mood_check (fst (run_ticks st inputs)) = Some t0
      \<and> (\<forall>ns \<in> set (snd (run_ticks st inputs)). MoodCheckIn \<notin> set ns)))"
  by (rule conjI [OF hydration_debounced conjI [OF activity_debounced
        conjI [OF ergonomics_debounced mood_debounced]]])


theorem periodic_reminders_debounced_witness:
  "HydrationReminder \<in> set (snd (tick (initial_state\<lparr>first_run := False\<rparr>) 63929390400000000 [63929390000000000]))
   \<and> last_hydration_reminder (fst (tick (initial_state\<lparr>first_run := False\<rparr>) 63929390400000000 [63929390000000000]))
       = Some 63929390400000000
   \<and> minutes_between 63929390400000000 63929394000000000 \<le> 60
   \<and> HydrationReminder \<notin> set (concat (snd (run_ticks
        (initial_state\<lparr>first_run := False,
          last_hydration_reminder := Some 63929390400000000, last_activity_reminder := Some 63929390400000000,
          last_ergonomics_tip := Some 63929390400000000, last_mood_check := Some 63929390400000000\<rparr>)
        [(63929394000000000, [63929390000000000])])))
   \<and> MoodCheckIn \<notin> set (concat (snd (run_ticks
        (initial_state\<lparr>first_run := False,
          last_hydration_reminder := Some 63929390400000000, last_activity_reminder := Some 63929390400000000,
          last_ergonomics_tip := Some 63929390400000000, last_mood_check := Some 63929390400000000\<rparr>)
        [(63929394000000000, [63929390000000000])])))
   \<and> HydrationReminder \<in> set (snd (tick
        (initial_state\<lparr>first_run := False,
          last_hydration_reminder := Some 63929390400000000, last_activity_reminder := Some 63929390400000000,
          last_ergonomics_tip := Some 63929390400000000, last_mood_check := Some 63929390400000000\<rparr>)
        63929394000000001 [63929390000000000]))
   \<and> ActivityReminder \<notin> set (snd (tick
        (initial_state\<lparr>first_run := False,
          last_hydration_reminder := Some 63929390400000000, last_activity_reminder := Some 63929390400000000,
          last_ergonomics_tip := Some 63929390400000000, last_mood_check := Some 63929390400000000\<rparr>)
        63929394000000001 [63929390000000000]))"
  using periodic_reminders_debounced
      [of "initial_state\<lparr>first_run := False\<rparr>" 63929390400000000 "[63929390000000000]" 63929390400000000 "[]"]
    periodic_reminders_debounced
      [of "initial_state\<lparr>first_run := False,
          last_hydration_reminder := Some 63929390400000000, last_activity_reminder := Some 63929390400000000,
          last_ergonomics_tip := Some 63929390400000000, last_mood_check := Some 63929390400000000\<rparr>"
        63929394000000001 "[63929390000000000]" 63929390400000000 "[(63929394000000000, [63929390000000000])]"]
  by (simp add: initial_state_def minutes_between_def total_seconds_def)

section \<open>The rolling daily and weekly totals\<close>

lemma sorted_concat_member:
  "sorted (concat xss) \<Longrightarrow> xs \<in> set xss \<Longrightarrow> sorted xs"
  by (induction xss) (auto simp: sorted_append)

lemma sorted_hd_le_last: "sorted xs \<Longrightarrow> xs \<noteq> [] \<Longrightarrow> hd xs \<le> last xs"
  by (cases xs) auto

lemma analyze_sessions_hd_le_last:
  assumes "analyze_sessions commit_times = Some sessions" and "s \<in> set sessions"
  shows "hd s \<le> last s"
proof -
  from assms(1) have ne: "commit_times \<noteq> []"
    by (auto simp: analyze_sessions_def)
  from analyze_sessions_props [OF ne] assms(1)
  have "concat sessions = sort commit_times" and "s \<noteq> []"
    using assms(2) by auto
  then have "sorted (concat sessions)" by simp
  then have "sorted s" using assms(2) by (rule sorted_concat_member)
  then show ?thesis using \<open>s \<noteq> []\<close> by (rule sorted_hd_le_last)
qed

lemma session_minutes_floor:
  "hd s \<le> last s \<Longrightarrow> session_minutes s = \<lfloor>minutes_between (hd s) (last s)\<rfloor>"
  by (simp add: session_minutes_def py_int_def minutes_between_def total_seconds_def)

lemma session_minutes_nonneg: "hd s \<le> last s \<Longrightarrow> 0 \<le> session_minutes s"
  by (simp add: session_minutes_def py_int_def minutes_between_def total_seconds_def)

lemma sum_session_minutes_floor:
  assumes "analyze_sessions commit_times = Some sessions"
  shows "sum_list (map session_minutes (filter P sessions)) =
         sum_list (map (\<lambda>s. \<lfloor>minutes_between (hd s) (last s)\<rfloor>) (filter P sessions))"
proof -
  have "map session_minutes (filter P sessions) =
        map (\<lambda>s. \<lfloor>minutes_between (hd s) (last s)\<rfloor>) (filter P sessions)"
    using analyze_sessions_hd_le_last [OF assms]
    by (intro map_cong) (auto simp: session_minutes_floor)
  then show ?thesis by (rule arg_cong)
qed

lemma sum_session_minutes_nonneg:
  assumes "analyze_sessions commit_times = Some sessions"
  shows "0 \<le> sum_list (map session_minutes (filter P sessions))"
  using analyze_sessions_hd_le_last [OF assms]
  by (intro sum_list_nonneg) (auto simp: session_minutes_nonneg)

lemma tick_evaluate_sessions:
  assumes "\<not> first_run st" and "analyze_sessions commit_times = Some sessions"
  shows "tick st now commit_times = evaluate st now sessions"
proof -
  from assms(2) have "commit_times \<noteq> []"
    by (auto simp: analyze_sessions_def)
  with assms show ?thesis by (simp add: tick_evaluate)
qed

lemma run_ticks_daily:
  assumes "\<not> first_run st" and "analyze_sessions commit_times = Some sessions"
    and "\<forall>now \<in> set nows. date now = today"
  shows "daily_coding_minutes (fst (run_ticks st (map (\<lambda>now. (now, commit_times)) nows))) =
           (if nows = [] \<or> last_day st = Some today then daily_coding_minutes st else 0)
           + int (length nows)
             * sum_list (map session_minutes (filter (\<lambda>s. date (hd s) = today) sessions))"
  using assms(1,3)
proof (induction nows arbitrary: st)
  case Nil
  then show ?case by simp
next
  case (Cons now nows)
  let ?st' = "fst (tick st now commit_times)"
  have t: "tick st now commit_times = evaluate st now sessions"
    using Cons.prems(1) assms(2) by (rule tick_evaluate_sessions)
  have today: "date now = today" using Cons.prems(2) by simp
  have fr: "\<not> first_run ?st'" using Cons.prems(1) by (simp add: t evaluate_periods)
  have ld: "last_day ?st' = Some today" by (simp add: t evaluate_periods today)
  have d: "daily_coding_minutes ?st' =
       (if last_day st = Some today then daily_coding_minutes st else 0)
       + sum_list (map session_minutes (filter (\<lambda>s. date (hd s) = today) sessions))"
    by (simp add: t evaluate_daily today)
  have "daily_coding_minutes (fst (run_ticks ?st' (map (\<lambda>now. (now, commit_times)) nows))) =
           (if nows = [] \<or> last_day ?st' = Some today then daily_coding_minutes ?st' else 0)
           + int (length nows)
             * sum_list (map session_minutes (filter (\<lambda>s. date (hd s) = today) sessions))"
    using fr Cons.prems(2) by (intro Cons.IH) simp_all
  then show ?case
    by (simp add: split_beta ld d algebra_simps)
qed

lemma run_ticks_weekly:
  assumes "\<not> first_run st" and "analyze_sessions commit_times = Some sessions"
    and "\<forall>now \<in> set nows. isoweek now = week"
  shows "weekly_coding_minutes (fst (run_ticks st (map (\<lambda>now. (now, commit_times)) nows))) =
           (if nows = [] \<or> last_week st = Some week then weekly_coding_minutes st else 0)
           + int (length nows)
             * sum_list (map session_minutes (filter (\<lambda>s. isoweek (hd s) = week) sessions))"
  using assms(1,3)
proof (induction nows arbitrary: st)
  case Nil
  then show ?case by simp
next
  case (Cons now nows)
  let ?st' = "fst (tick st now commit_times)"
  have t: "tick st now commit_times = evaluate st now sessions"
    using Cons.prems(1) assms(2) by (rule tick_evaluate_sessions)
  have week: "isoweek now = week" using Cons.prems(2) by simp
  have fr: "\<not> first_run ?st'" using Cons.prems(1) by (simp add: t evaluate_periods)
  have lw: "last_week ?st' = Some week" by (simp add: t evaluate_periods week)
  have w: "weekly_coding_minutes ?st' =
       (if last_week st = Some week then weekly_coding_minutes st else 0)
       + sum_list (map session_minutes (filter (\<lambda>s. isoweek (hd s) = week) sessions))"
    by (simp add: t evaluate_weekly week)
  have "weekly_coding_minutes (fst (run_ticks ?st' (map (\<lambda>now. (now, commit_times)) nows))) =
           (if nows = [] \<or> last_week ?st' = Some week then weekly_coding_minutes ?st' else 0)
           + int (length nows)
             * sum_list (map session_minutes (filter (\<lambda>s. isoweek (hd s) = week) sessions))"
    using fr Cons.prems(2) by (intro Cons.IH) simp_all
  then show ?case
    by (simp add: split_beta lw w algebra_simps)
qed


text \<open>
  What a tick that evaluates the rules does to the two totals: \<open>daily_coding_minutes\<close>
  becomes its value after the day roll-over (the old value, or 0 on a new day) plus the
  sum, over the sessions that start today, of the session's length in whole minutes
  (rounded down); \<open>weekly_coding_minutes\<close> likewise with the sessions whose ISO week
  number is that of \<open>now\<close>, whatever their year. The sum is taken over the whole
  visible history on every tick, so over \<open>k\<close> ticks of one day with an unchanged
  history it is added \<open>k\<close> times.
\<close>

lemma coding_minutes_accumulate:
  assumes "\<not> first_run st" and "analyze_sessions commit_times = Some sessions"
  shows "daily_coding_minutes (fst (tick st now commit_times)) =
           (if last_day st = Some (date now) then daily_coding_minutes st else 0)
           + sum_list (map (\<lambda>s. \<lfloor>minutes_between (hd s) (last s)\<rfloor>)
               (filter (\<lambda>s. date (hd s) = date now) sessions))
       \<and> weekly_coding_minutes (fst (tick st now commit_times)) =
           (if last_week st = Some (isoweek now) then weekly_coding_minutes st else 0)
           + sum_list (map (\<lambda>s. \<lfloor>minutes_between (hd s) (last s)\<rfloor>)
               (filter (\<lambda>s. isoweek (hd s) = isoweek now) sessions))
       \<and> ((\<forall>now \<in> set nows. date now = today) \<longrightarrow>
           daily_coding_minutes (fst (run_ticks st (map (\<lambda>now. (now, commit_times)) nows))) =
             (if nows = [] \<or> last_day st = Some today then daily_coding_minutes st else 0)
             + int (length nows)
               * sum_list (map (\<lambda>s. \<lfloor>minutes_between (hd s) (last s)\<rfloor>)
                   (filter (\<lambda>s. date (hd s) = today) sessions)))
       \<and> ((\<forall>now \<in> set nows. isoweek now = week) \<longrightarrow>
           weekly_coding_minutes (fst (run_ticks st (map (\<lambda>now. (now, commit_times)) nows))) =
             (if nows = [] \<or> last_week st = Some week then weekly_coding_minutes st else 0)
             + int (length nows)
               * sum_list (map (\<lambda>s. \<lfloor>minutes_between (hd s) (last s)\<rfloor>)
                   (filter (\<lambda>s. isoweek (hd s) = week) sessions)))"
proof -
  note fl = sum_session_minutes_floor [OF assms(2), symmetric]
  have t: "tick st now commit_times = evaluate st now sessions"
    using assms by (rule tick_evaluate_sessions)
  have d: "daily_coding_minutes (fst (tick st now commit_times)) =
           (if last_day st = Some (date now) then daily_coding_minutes st else 0)
           + sum_list (map (\<lambda>s. \<lfloor>minutes_between (hd s) (last s)\<rfloor>)
               (filter (\<lambda>s. date (hd s) = date now) sessions))"
    by (simp add: t evaluate_daily fl)
  have w: "weekly_coding_minutes (fst (tick st now commit_times)) =
           (if last_week st = Some (isoweek now) then weekly_coding_minutes st else 0)
           + sum_list (map (\<lambda>s. \<lfloor>minutes_between (hd s) (last s)\<rfloor>)
               (filter (\<lambda>s. isoweek (hd s) = isoweek now) sessions))"
    by (simp add: t evaluate_weekly fl)
  have dk: "(\<forall>now \<in> set nows. date now = today) \<longrightarrow>
           daily_coding_minutes (fst (run_ticks st (map (\<lambda>now. (now, commit_times)) nows))) =
             (if nows = [] \<or> last_day st = Some today then daily_coding_minutes st else 0)
             + int (length nows)
               * sum_list (map (\<lambda>s. \<lfloor>minutes_between (hd s) (last s)\<rfloor>)
                   (filter (\<lambda>s. date (hd s) = today) sessions))"
    using run_ticks_daily [OF assms, of nows today] by (simp only: fl) blast
  have wk: "(\<forall>now \<in> set nows. isoweek now = week) \<longrightarrow>
           weekly_coding_minutes (fst (run_ticks st (map (\<lambda>now. (now, commit_times)) nows))) =
             (if nows = [] \<or> last_week st = Some week then weekly_coding_minutes st else 0)
             + int (length nows)
               * sum_list (map (\<lambda>s. \<lfloor>minutes_between (hd s) (last s)\<rfloor>)
                   (filter (\<lambda>s. isoweek (hd s) = week) sessions))"
    using run_ticks_weekly [OF assms, of nows week] by (simp only: fl) blast
  from d w dk wk show ?thesis by (intro conjI)
qed


lemma isoweek_examples:
  "isoweek 63929390400000000 = 45" "isoweek 63929391000000000 = 45" "isoweek 63929391600000000 = 45" "isoweek 63929390000000000 = 45"
  by code_simp+

lemma coding_minutes_accumulate_example:
  "\<not> first_run (initial_state\<lparr>first_run := False\<rparr>)
   \<and> analyze_sessions [63929390000000000, 63929390300000000, 63929390600000000] = Some [[63929390000000000, 63929390300000000, 63929390600000000]]
   \<and> date 63929390400000000 = 739924 \<and> date 63929391000000000 = 739924 \<and> date 63929391600000000 = 739924
   \<and> daily_coding_minutes
        (fst (tick (initial_state\<lparr>first_run := False\<rparr>) 63929390400000000 [63929390000000000, 63929390300000000, 63929390600000000])) = 10
   \<and> daily_coding_minutes
        (fst (run_ticks (initial_state\<lparr>first_run := False\<rparr>)
               (map (\<lambda>now. (now, [63929390000000000, 63929390300000000, 63929390600000000])) [63929390400000000, 63929391000000000, 63929391600000000]))) = 3 * 10
   \<and> weekly_coding_minutes
        (fst (run_ticks (initial_state\<lparr>first_run := False\<rparr>)
               (map (\<lambda>now. (now, [63929390000000000, 63929390300000000, 63929390600000000])) [63929390400000000, 63929391000000000, 63929391600000000]))) = 3 * 10"
proof -
  have a: "analyze_sessions [63929390000000000, 63929390300000000, 63929390600000000] = Some [[63929390000000000, 63929390300000000, 63929390600000000]]"
    by (simp add: analyze_sessions_def minutes_between_def total_seconds_def
        MIN_BREAK_MINUTES_def)
  show ?thesis
    using coding_minutes_accumulate
      [of "initial_state\<lparr>first_run := False\<rparr>" "[63929390000000000, 63929390300000000, 63929390600000000]" "[[63929390000000000, 63929390300000000, 63929390600000000]]"
        63929390400000000 "[63929390400000000, 63929391000000000, 63929391600000000]" 739924 45]
    by (simp add: a isoweek_examples date_def initial_state_def minutes_between_def
        total_seconds_def)
qed

text \<open>
  Claim C3. The daily part holds as stated (lemma \<open>coding_minutes_accumulate\<close>). The
  weekly part does not: line 144 compares \<^verbatim>\<open>isocalendar()[1]\<close>, the week number
  alone, so a session of week 45 of another year is added to this week's minutes. Here
  \<open>now\<close> is 2026-11-04 12:00 and the only session is 2025-11-05 10:00 to 10:03, 364
  days earlier: no session starts in the ISO week of \<open>now\<close>, the daily total stays 0,
  and the weekly total becomes 3.
\<close>

theorem weekly_minutes_ignore_the_year:
  "date 63929390400000000 = 739924 \<and> date 63897933600000000 = 739560
   \<and> isoweek 63929390400000000 = 45 \<and> isoweek 63897933600000000 = 45
   \<and> analyze_sessions [63897933600000000, 63897933780000000]
       = Some [[63897933600000000, 63897933780000000]]
   \<and> daily_coding_minutes
        (fst (tick (initial_state\<lparr>first_run := False\<rparr>) 63929390400000000
               [63897933600000000, 63897933780000000])) = 0
   \<and> weekly_coding_minutes
        (fst (tick (initial_state\<lparr>first_run := False\<rparr>) 63929390400000000
               [63897933600000000, 63897933780000000])) = 3"
proof -
  have a: "analyze_sessions [63897933600000000, 63897933780000000]
       = Some [[63897933600000000, 63897933780000000]]"
    by (simp add: analyze_sessions_def minutes_between_def total_seconds_def
        MIN_BREAK_MINUTES_def)
  have w: "isoweek 63929390400000000 = 45" "isoweek 63897933600000000 = 45"
    by code_simp+
  show ?thesis
    using coding_minutes_accumulate
      [of "initial_state\<lparr>first_run := False\<rparr>" "[63897933600000000, 63897933780000000]"
        "[[63897933600000000, 63897933780000000]]" 63929390400000000 "[]" 0 0]
    by (simp add: a w date_def initial_state_def minutes_between_def total_seconds_def)
qed

section \<open>The positive reinforcement\<close>

lemma evaluate_any_alert:
  "any_alert l nb lt (fst (evaluate st now sessions)) \<longleftrightarrow>
     l \<noteq> [] \<or> nb \<noteq> [] \<or> lt \<noteq> []
     \<or> daily_coding_minutes (fst (evaluate st now sessions)) > 8 * 60
     \<or> weekly_coding_minutes (fst (evaluate st now sessions)) > 40 * 60"
  by (simp add: any_alert_def)

lemma alert_rules_set:
  "set (alert_rules l nb lt st) =
     (if l \<noteq> [] then {LongSessionAlert (length l)} else {})
     \<union> (if nb \<noteq> [] then {BreakReminder} else {})
     \<union> (if lt \<noteq> [] then {NightOwlAlert} else {})
     \<union> (if daily_coding_minutes st > 8 * 60 then {WorkLimitWarning} else {})
     \<union> (if weekly_coding_minutes st > 40 * 60 then {WeeklyLimitWarning} else {})"
  by (simp add: alert_rules_def)

lemma evaluate_great_job:
  "GreatJob \<in> set (snd (evaluate st now sessions)) \<longleftrightarrow>
     \<not> any_alert (long_sessions sessions) (no_break_sessions sessions)
          (late_night_commits sessions) (fst (evaluate st now sessions))
     \<and> \<not> (positive_reinforcement_given st \<and> last_day st = Some (date now))"
  by (simp add: evaluate_unfold any_alert_def alert_rules_no_reminder)

lemma evaluate_count_great_job:
  "count_list (snd (evaluate st now sessions)) GreatJob =
     (if GreatJob \<in> set (snd (evaluate st now sessions)) then 1 else 0)"
  by (simp add: evaluate_unfold any_alert_def alert_rules_def)

lemma evaluate_flag:
  "positive_reinforcement_given (fst (evaluate st now sessions)) \<longleftrightarrow>
     (positive_reinforcement_given st \<and> last_day st = Some (date now))
     \<or> GreatJob \<in> set (snd (evaluate st now sessions))"
  by (simp add: evaluate_unfold any_alert_def alert_rules_no_reminder) blast

lemma evaluate_alerts_shown:
  "(\<exists>n. LongSessionAlert n \<in> set (snd (evaluate st now sessions))) \<longleftrightarrow>
     long_sessions sessions \<noteq> []"
  "BreakReminder \<in> set (snd (evaluate st now sessions)) \<longleftrightarrow> no_break_sessions sessions \<noteq> []"
  "NightOwlAlert \<in> set (snd (evaluate st now sessions)) \<longleftrightarrow> late_night_commits sessions \<noteq> []"
  "WorkLimitWarning \<in> set (snd (evaluate st now sessions)) \<longleftrightarrow>
     daily_coding_minutes (fst (evaluate st now sessions)) > 8 * 60"
  "WeeklyLimitWarning \<in> set (snd (evaluate st now sessions)) \<longleftrightarrow>
     weekly_coding_minutes (fst (evaluate st now sessions)) > 40 * 60"
  by (simp_all add: evaluate_unfold alert_rules_set)


lemma tick_great_job_flag:
  "GreatJob \<in> set (snd (tick st now commit_times)) \<Longrightarrow>
     positive_reinforcement_given (fst (tick st now commit_times))
     \<and> last_day (fst (tick st now commit_times)) = Some (date now)"
  by (rule tick_cases [where st = st and now = now and commit_times = commit_times])
    (simp_all add: evaluate_flag evaluate_periods)

lemma tick_count_great_job:
  "count_list (snd (tick st now commit_times)) GreatJob =
     (if GreatJob \<in> set (snd (tick st now commit_times)) then 1 else 0)"
  by (rule tick_cases [where st = st and now = now and commit_times = commit_times])
    (simp_all add: evaluate_count_great_job)

lemma tick_given_today:
  assumes "positive_reinforcement_given st" and "last_day st = Some (date now)"
  shows "GreatJob \<notin> set (snd (tick st now commit_times))
       \<and> positive_reinforcement_given (fst (tick st now commit_times))
       \<and> last_day (fst (tick st now commit_times)) = Some (date now)"
  by (rule tick_cases [where st = st and now = now and commit_times = commit_times])
    (use assms in \<open>simp_all add: evaluate_great_job evaluate_flag evaluate_periods\<close>)

lemma run_ticks_given_today:
  assumes "positive_reinforcement_given st" and "last_day st = Some today"
    and "\<forall>(now, commit_times) \<in> set inputs. date now = today"
  shows "count_list (concat (snd (run_ticks st inputs))) GreatJob = 0"
  using assms
proof (induction inputs arbitrary: st)
  case Nil
  then show ?case by simp
next
  case (Cons input inputs)
  obtain now commit_times where input: "input = (now, commit_times)"
    by (cases input)
  from Cons.prems(3) input have today: "date now = today" by simp
  have step: "GreatJob \<notin> set (snd (tick st now commit_times))
       \<and> positive_reinforcement_given (fst (tick st now commit_times))
       \<and> last_day (fst (tick st now commit_times)) = Some (date now)"
    using Cons.prems(1,2) today by (intro tick_given_today) simp_all
  have "count_list (concat (snd (run_ticks (fst (tick st now commit_times)) inputs))) GreatJob = 0"
    using step Cons.prems(3) today by (intro Cons.IH) simp_all
  with step show ?case
    by (simp add: input split_beta)
qed

lemma run_ticks_great_job_once:
  assumes "\<forall>(now, commit_times) \<in> set inputs. date now = today"
  shows "count_list (concat (snd (run_ticks st inputs))) GreatJob \<le> 1"
  using assms
proof (induction inputs arbitrary: st)
  case Nil
  then show ?case by simp
next
  case (Cons input inputs)
  obtain now commit_times where input: "input = (now, commit_times)"
    by (cases input)
  let ?st' = "fst (tick st now commit_times)"
  from Cons.prems input have today: "date now = today" by simp
  from Cons.prems have rest: "\<forall>(now, commit_times) \<in> set inputs. date now = today" by simp
  show ?case
  proof (cases "GreatJob \<in> set (snd (tick st now commit_times))")
    case True
    then have "positive_reinforcement_given ?st'" and "last_day ?st' = Some today"
      using tick_great_job_flag [of st now commit_times] today by simp_all
    then have "count_list (concat (snd (run_ticks ?st' inputs))) GreatJob = 0"
      using rest by (rule run_ticks_given_today)
    with True show ?thesis
      by (simp add: input split_beta tick_count_great_job)
  next
    case False
    have "count_list (concat (snd (run_ticks ?st' inputs))) GreatJob \<le> 1"
      using rest by (rule Cons.IH)
    with False show ?thesis
      by (simp add: input split_beta)
  qed
qed

lemma tick_great_job_iff:
  "GreatJob \<in> set (snd (tick st now commit_times)) \<longleftrightarrow>
     \<not> first_run st
     \<and> (\<exists>sessions. analyze_sessions commit_times = Some sessions
          \<and> long_sessions sessions = [] \<and> no_break_sessions sessions = []
          \<and> late_night_commits sessions = []
          \<and> \<not> daily_coding_minutes (fst (tick st now commit_times)) > 8 * 60
          \<and> \<not> weekly_coding_minutes (fst (tick st now commit_times)) > 40 * 60)
     \<and> \<not> (positive_reinforcement_given st \<and> last_day st = Some (date now))"
proof (rule tick_cases [where st = st and now = now and commit_times = commit_times])
  assume "first_run st"
    and "tick st now commit_times = (st\<lparr>first_run := False\<rparr>, [MonitoringStarted])"
  then show ?thesis by simp
next
  assume "\<not> first_run st" and "commit_times = []"
    and "tick st now commit_times = (st, [NoCommitData])"
  then show ?thesis by (simp add: analyze_sessions_def)
next
  assume a: "\<not> first_run st" "commit_times \<noteq> []"
    and t: "tick st now commit_times = evaluate st now (the (analyze_sessions commit_times))"
  from analyze_sessions_props [OF a(2)] obtain sessions
    where s: "analyze_sessions commit_times = Some sessions" by blast
  show ?thesis
    using a(1) by (simp add: t s evaluate_great_job evaluate_any_alert conj_ac)
qed

lemma tick_great_job_no_alert:
  assumes "GreatJob \<in> set (snd (tick st now commit_times))"
  shows "(\<forall>n. LongSessionAlert n \<notin> set (snd (tick st now commit_times)))
       \<and> BreakReminder \<notin> set (snd (tick st now commit_times))
       \<and> NightOwlAlert \<notin> set (snd (tick st now commit_times))
       \<and> WorkLimitWarning \<notin> set (snd (tick st now commit_times))
       \<and> WeeklyLimitWarning \<notin> set (snd (tick st now commit_times))"
proof (rule tick_cases [where st = st and now = now and commit_times = commit_times])
  assume "tick st now commit_times = (st\<lparr>first_run := False\<rparr>, [MonitoringStarted])"
  with assms show ?thesis by simp
next
  assume "tick st now commit_times = (st, [NoCommitData])"
  with assms show ?thesis by simp
next
  assume t: "tick st now commit_times = evaluate st now (the (analyze_sessions commit_times))"
  let ?ss = "the (analyze_sessions commit_times)"
  from assms have "\<not> any_alert (long_sessions ?ss) (no_break_sessions ?ss)
          (late_night_commits ?ss) (fst (evaluate st now ?ss))"
    by (simp add: t evaluate_great_job)
  then have none: "long_sessions ?ss = []" "no_break_sessions ?ss = []"
      "late_night_commits ?ss = []"
      "\<not> daily_coding_minutes (fst (evaluate st now ?ss)) > 8 * 60"
      "\<not> weekly_coding_minutes (fst (evaluate st now ?ss)) > 40 * 60"
    by (simp_all add: evaluate_any_alert)
  have l: "\<forall>n. LongSessionAlert n \<notin> set (snd (tick st now commit_times))"
    using none(1) evaluate_alerts_shown(1) [of st now ?ss] unfolding t by blast
  have b: "BreakReminder \<notin> set (snd (tick st now commit_times))"
    using none(2) by (simp add: t evaluate_alerts_shown(2))
  have n: "NightOwlAlert \<notin> set (snd (tick st now commit_times))"
    using none(3) by (simp add: t evaluate_alerts_shown(3))
  have d: "WorkLimitWarning \<notin> set (snd (tick st now commit_times))"
    using none(4) by (simp add: t evaluate_alerts_shown(4))
  have w: "WeeklyLimitWarning \<notin> set (snd (tick st now commit_times))"
    using none(5) by (simp add: t evaluate_alerts_shown(5))
  from l b n d w show ?thesis by (intro conjI)
qed


text \<open>
  Claim C5. The positive reinforcement is shown on a tick exactly when the tick evaluates
  the rules, none of the five alert conditions holds (no long session, no session without
  a break, no late-night commit, the daily total not over 8 hours, the weekly total not
  over 40 hours) and \<open>positive_reinforcement_given\<close>, as the rule reads it after the
  day roll-over of the same tick, is false. The periodic reminders play no part in it.
  When it is shown, no alert is shown in that tick and the flag is true afterwards; it is
  shown at most once in a tick, and at most once over any sequence of ticks whose
  \<open>now\<close> lies in one calendar day.
\<close>

theorem positive_reinforcement_once_a_day:
  "(GreatJob \<in> set (snd (tick st now commit_times)) \<longleftrightarrow>
      \<not> first_run st
      \<and> (\<exists>sessions. analyze_sessions commit_times = Some sessions
           \<and> long_sessions sessions = [] \<and> no_break_sessions sessions = []
           \<and> late_night_commits sessions = []
           \<and> \<not> daily_coding_minutes (fst (tick st now commit_times)) > 8 * 60
           \<and> \<not> weekly_coding_minutes (fst (tick st now commit_times)) > 40 * 60)
      \<and> \<not> positive_reinforcement_given (roll_periods (date now) (isoweek now) st))
   \<and> (positive_reinforcement_given (roll_periods (date now) (isoweek now) st) \<longleftrightarrow>
        positive_reinforcement_given st \<and> last_day st = Some (date now))
   \<and> (GreatJob \<in> set (snd (tick st now commit_times)) \<longrightarrow>
        (\<forall>n. LongSessionAlert n \<notin> set (snd (tick st now commit_times)))
        \<and> BreakReminder \<notin> set (snd (tick st now commit_times))
        \<and> NightOwlAlert \<notin> set (snd (tick st now commit_times))
        \<and> WorkLimitWarning \<notin> set (snd (tick st now commit_times))
        \<and> WeeklyLimitWarning \<notin> set (snd (tick st now commit_times))
        \<and> positive_reinforcement_given (fst (tick st now commit_times)))
   \<and> count_list (snd (tick st now commit_times)) GreatJob \<le> 1
   \<and> ((\<forall>(now, commit_times) \<in> set inputs. date now = today) \<longrightarrow>
        count_list (concat (snd (run_ticks st inputs))) GreatJob \<le> 1)"
proof -
  have flag: "positive_reinforcement_given (roll_periods (date now) (isoweek now) st) \<longleftrightarrow>
        positive_reinforcement_given st \<and> last_day st = Some (date now)"
    by (simp add: roll_periods_eq)
  have iff: "GreatJob \<in> set (snd (tick st now commit_times)) \<longleftrightarrow>
      \<not> first_run st
      \<and> (\<exists>sessions. analyze_sessions commit_times = Some sessions
           \<and> long_sessions sessions = [] \<and> no_break_sessions sessions = []
           \<and> late_night_commits sessions = []
           \<and> \<not> daily_coding_minutes (fst (tick st now commit_times)) > 8 * 60
           \<and> \<not> weekly_coding_minutes (fst (tick st now commit_times)) > 40 * 60)
      \<and> \<not> positive_reinforcement_given (roll_periods (date now) (isoweek now) st)"
    unfolding flag by (rule tick_great_job_iff)
  have shown: "GreatJob \<in> set (snd (tick st now commit_times)) \<longrightarrow>
        (\<forall>n. LongSessionAlert n \<notin> set (snd (tick st now commit_times)))
        \<and> BreakReminder \<notin> set (snd (tick st now commit_times))
        \<and> NightOwlAlert \<notin> set (snd (tick st now commit_times))
        \<and> WorkLimitWarning \<notin> set (snd (tick st now commit_times))
        \<and> WeeklyLimitWarning \<notin> set (snd (tick st now commit_times))
        \<and> positive_reinforcement_given (fst (tick st now commit_times))"
    using tick_great_job_no_alert [of st now commit_times]
      tick_great_job_flag [of st now commit_times] by blast
  have once: "count_list (snd (tick st now commit_times)) GreatJob \<le> 1"
    by (simp add: tick_count_great_job)
  have day: "(\<forall>(now, commit_times) \<in> set inputs. date now = today) \<longrightarrow>
        count_list (concat (snd (run_ticks st inputs))) GreatJob \<le> 1"
    using run_ticks_great_job_once [of inputs today st] by blast
  from iff flag shown once day show ?thesis by (intro conjI)
qed

theorem positive_reinforcement_once_a_day_witness:
  "date 63929390400000000 = 739924 \<and> date 63929391000000000 = 739924 \<and> date 63929391600000000 = 739924
   \<and> GreatJob \<in> set (snd (tick (initial_state\<lparr>first_run := False\<rparr>) 63929390400000000 [63929390000000000]))
   \<and> BreakReminder \<notin> set (snd (tick (initial_state\<lparr>first_run := False\<rparr>) 63929390400000000 [63929390000000000]))
   \<and> HydrationReminder \<in> set (snd (tick (initial_state\<lparr>first_run := False\<rparr>) 63929390400000000 [63929390000000000]))
   \<and> positive_reinforcement_given (fst (tick (initial_state\<lparr>first_run := False\<rparr>) 63929390400000000 [63929390000000000]))
   \<and> count_list (concat (snd (run_ticks (initial_state\<lparr>first_run := False\<rparr>)
        [(63929390400000000, [63929390000000000]), (63929391000000000, [63929390000000000]), (63929391600000000, [63929390000000000])]))) GreatJob = 1"
proof -
  have e: "GreatJob \<in> set (snd (tick (initial_state\<lparr>first_run := False\<rparr>) 63929390400000000 [63929390000000000]))"
    "HydrationReminder \<in> set (snd (tick (initial_state\<lparr>first_run := False\<rparr>) 63929390400000000 [63929390000000000]))"
    "count_list (concat (snd (run_ticks (initial_state\<lparr>first_run := False\<rparr>)
        [(63929390400000000, [63929390000000000]), (63929391000000000, [63929390000000000]), (63929391600000000, [63929390000000000])]))) GreatJob = 1"
    by code_simp+
  show ?thesis
    using positive_reinforcement_once_a_day
      [of "initial_state\<lparr>first_run := False\<rparr>" 63929390400000000 "[63929390000000000]"
        "[(63929390400000000, [63929390000000000]), (63929391000000000, [63929390000000000]), (63929391600000000, [63929390000000000])]" 739924] e
    by (simp add: date_def)
qed

section \<open>The day and week roll-over\<close>

text \<open>
  What the roll-over of lines 133 to 139 does, and what a tick does to the totals: a
  tick that does not evaluate the rules leaves the totals, the flag and the stored day
  and week as they were; a tick that does first sets \<open>daily_coding_minutes\<close> to 0
  and the flag to false exactly when the stored day is not the day of \<open>now\<close>, sets
  \<open>weekly_coding_minutes\<close> to 0 exactly when the stored week number is not the week
  number of \<open>now\<close>, stores the day and the week number of \<open>now\<close>, and then only adds
  to the totals.
\<close>

lemma rolling_totals_roll_over:
  "(first_run st \<or> commit_times = [] \<longrightarrow>
      daily_coding_minutes (fst (tick st now commit_times)) = daily_coding_minutes st
      \<and> weekly_coding_minutes (fst (tick st now commit_times)) = weekly_coding_minutes st
      \<and> positive_reinforcement_given (fst (tick st now commit_times))
          = positive_reinforcement_given st
      \<and> last_day (fst (tick st now commit_times)) = last_day st
      \<and> last_week (fst (tick st now commit_times)) = last_week st)
   \<and> daily_coding_minutes (roll_periods (date now) (isoweek now) st) =
        (if last_day st \<noteq> Some (date now) then 0 else daily_coding_minutes st)
   \<and> positive_reinforcement_given (roll_periods (date now) (isoweek now) st) =
        (if last_day st \<noteq> Some (date now) then False else positive_reinforcement_given st)
   \<and> weekly_coding_minutes (roll_periods (date now) (isoweek now) st) =
        (if last_week st \<noteq> Some (isoweek now) then 0 else weekly_coding_minutes st)
   \<and> (\<not> first_run st \<and> commit_times \<noteq> [] \<longrightarrow>
      daily_coding_minutes (roll_periods (date now) (isoweek now) st)
        \<le> daily_coding_minutes (fst (tick st now commit_times))
      \<and> weekly_coding_minutes (roll_periods (date now) (isoweek now) st)
        \<le> weekly_coding_minutes (fst (tick st now commit_times))
      \<and> last_day (fst (tick st now commit_times)) = Some (date now)
      \<and> last_week (fst (tick st now commit_times)) = Some (isoweek now))"
proof -
  have idle: "first_run st \<or> commit_times = [] \<longrightarrow>
      daily_coding_minutes (fst (tick st now commit_times)) = daily_coding_minutes st
      \<and> weekly_coding_minutes (fst (tick st now commit_times)) = weekly_coding_minutes st
      \<and> positive_reinforcement_given (fst (tick st now commit_times))
          = positive_reinforcement_given st
      \<and> last_day (fst (tick st now commit_times)) = last_day st
      \<and> last_week (fst (tick st now commit_times)) = last_week st"
    by (rule tick_cases [where st = st and now = now and commit_times = commit_times])
      simp_all
  have rules: "\<not> first_run st \<and> commit_times \<noteq> [] \<longrightarrow>
      daily_coding_minutes (roll_periods (date now) (isoweek now) st)
        \<le> daily_coding_minutes (fst (tick st now commit_times))
      \<and> weekly_coding_minutes (roll_periods (date now) (isoweek now) st)
        \<le> weekly_coding_minutes (fst (tick st now commit_times))
      \<and> last_day (fst (tick st now commit_times)) = Some (date now)
      \<and> last_week (fst (tick st now commit_times)) = Some (isoweek now)"
  proof
    assume a: "\<not> first_run st \<and> commit_times \<noteq> []"
    then obtain sessions where s: "analyze_sessions commit_times = Some sessions"
      using analyze_sessions_props [of commit_times] by blast
    have t: "tick st now commit_times = evaluate st now sessions"
      using a s by (intro tick_evaluate_sessions) simp_all
    show "daily_coding_minutes (roll_periods (date now) (isoweek now) st)
        \<le> daily_coding_minutes (fst (tick st now commit_times))
      \<and> weekly_coding_minutes (roll_periods (date now) (isoweek now) st)
        \<le> weekly_coding_minutes (fst (tick st now commit_times))
      \<and> last_day (fst (tick st now commit_times)) = Some (date now)
      \<and> last_week (fst (tick st now commit_times)) = Some (isoweek now)"
      using sum_session_minutes_nonneg [OF s, of "\<lambda>s. date (hd s) = date now"]
        sum_session_minutes_nonneg [OF s, of "\<lambda>s. isoweek (hd s) = isoweek now"]
      by (simp add: t evaluate_daily evaluate_weekly evaluate_periods roll_periods_eq)
  qed
  from idle rules show ?thesis
    by (simp add: roll_periods_eq)
qed

text \<open>
  Claim C6. The daily total, the flag and the stored day behave as the claim says
  (lemma \<open>rolling_totals_roll_over\<close>). The weekly total does not: line 137 compares
  week numbers without the year, so a rule evaluation in week 45 of 2026 that follows
  one in week 45 of 2025 does not reset it. Here the rules are evaluated on 2025-11-05
  at 10:05 over a session of 3 minutes, and next on 2026-11-04 at 12:00, with a session
  of 5 minutes on that day added to the history: the day roll-over sets the daily total
  to 0, the weekly total is left at 3, and the tick ends with 3 + 3 + 5 = 11.
\<close>

theorem weekly_reset_ignores_the_year:
  "date 63897933900000000 = 739560 \<and> date 63929390400000000 = 739924
   \<and> last_day (fst (tick (initial_state\<lparr>first_run := False\<rparr>) 63897933900000000 [63897933600000000, 63897933780000000])) = Some 739560
   \<and> last_week (fst (tick (initial_state\<lparr>first_run := False\<rparr>) 63897933900000000 [63897933600000000, 63897933780000000])) = Some 45
   \<and> daily_coding_minutes (fst (tick (initial_state\<lparr>first_run := False\<rparr>) 63897933900000000 [63897933600000000, 63897933780000000])) = 3
   \<and> weekly_coding_minutes (fst (tick (initial_state\<lparr>first_run := False\<rparr>) 63897933900000000 [63897933600000000, 63897933780000000])) = 3
   \<and> daily_coding_minutes (roll_periods (date 63929390400000000) (isoweek 63929390400000000)
        (fst (tick (initial_state\<lparr>first_run := False\<rparr>) 63897933900000000 [63897933600000000, 63897933780000000]))) = 0
   \<and> weekly_coding_minutes (roll_periods (date 63929390400000000) (isoweek 63929390400000000)
        (fst (tick (initial_state\<lparr>first_run := False\<rparr>) 63897933900000000 [63897933600000000, 63897933780000000]))) = 3
   \<and> daily_coding_minutes
        (fst (tick (fst (tick (initial_state\<lparr>first_run := False\<rparr>) 63897933900000000 [63897933600000000, 63897933780000000]))
               63929390400000000 [63897933600000000, 63897933780000000, 63929390000000000, 63929390300000000])) = 5
   \<and> weekly_coding_minutes
        (fst (tick (fst (tick (initial_state\<lparr>first_run := False\<rparr>) 63897933900000000 [63897933600000000, 63897933780000000]))
               63929390400000000 [63897933600000000, 63897933780000000, 63929390000000000, 63929390300000000])) = 11"
  by code_simp

section \<open>The stop event\<close>














end
